theory Spec2Isabelle
  imports Main "HOL-Library.Sublist"
begin

section \<open>Values shared by the services\<close>

text \<open>
  A value caught by a \<^verbatim>\<open>catch\<close> clause. The services read four things from it:
  whether it is an \<^verbatim>\<open>instanceof Error\<close>, its \<^verbatim>\<open>code\<close>, its \<^verbatim>\<open>message\<close> and its
  \<^verbatim>\<open>stack\<close>. A property that is absent (\<^verbatim>\<open>undefined\<close>) is \<open>None\<close>.
\<close>

record thrown =
  instanceofError :: bool
  err_code :: "string option"
  err_message :: "string option"
  err_stack :: "string option"

text \<open>\<^verbatim>\<open>String.prototype.includes\<close>: the argument occurs as a contiguous substring.\<close>

fun includes_str :: "string \<Rightarrow> string \<Rightarrow> bool" where
  "includes_str [] sub = (sub = [])"
| "includes_str (c # cs) sub = (prefix sub (c # cs) \<or> includes_str cs sub)"

text \<open>
  \<^verbatim>\<open>error instanceof Error ? error.message : 'Unknown error'\<close>, the expression every
  service uses to turn a caught value into text. An \<^verbatim>\<open>Error\<close> object always carries a
  message string; should it be absent the template prints \<^verbatim>\<open>undefined\<close>.
\<close>

definition error_text :: "thrown \<Rightarrow> string" where
  "error_text e =
     (if instanceofError e
      then (case err_message e of Some m \<Rightarrow> m | None \<Rightarrow> ''undefined'')
      else ''Unknown error'')"

section \<open>Retrying ledger client (listenerVerification.ts, retryWithBackoff)\<close>

text \<open>
  The operation \<^verbatim>\<open>fn\<close> is a remote call, so its outcome may differ from one invocation
  to the next: \<open>fn k\<close> is the outcome of the invocation made by attempt \<open>k\<close>, \<open>Inl\<close> a
  rejection with the thrown value, \<open>Inr\<close> the resolved value. What the client does is
  recorded as a trace of its invocations and of the delays it sleeps, in order.
\<close>

datatype retry_event = Attempt nat | Delay int

record 'a retry_run =
  outcome :: "thrown option + 'a"
  trace :: "retry_event list"

definition isTimeout :: "thrown \<Rightarrow> bool" where
  "isTimeout error =
     (err_code error = Some ''TIMEOUT'' \<or>
      err_code error = Some ''ETIMEDOUT'' \<or>
      err_code error = Some ''NETWORK_ERROR'' \<or>
      (case err_message error of None \<Rightarrow> False | Some m \<Rightarrow> includes_str m ''timeout'') \<or>
      (case err_message error of None \<Rightarrow> False | Some m \<Rightarrow> includes_str m ''network''))"

definition baseDelay :: int where
  "baseDelay = 1000"

definition backoff_delay :: "nat \<Rightarrow> int" where
  "backoff_delay attempt = min (baseDelay * 2 ^ (attempt - 1)) 5000"

text \<open>
  The \<^verbatim>\<open>for\<close> loop, entered with \<open>attempt = 1\<close> and \<open>lastError\<close> undefined. Leaving the
  loop (by \<^verbatim>\<open>break\<close> or because \<open>attempt\<close> exceeds \<open>maxRetries\<close>) throws \<open>lastError\<close>.
\<close>

function retry_loop ::
  "(nat \<Rightarrow> thrown + 'a) \<Rightarrow> nat \<Rightarrow> nat \<Rightarrow> thrown option \<Rightarrow> retry_event list \<Rightarrow> 'a retry_run"
where
  "retry_loop fn maxRetries attempt lastError tr =
     (if attempt \<le> maxRetries then
        (case fn attempt of
           Inr v \<Rightarrow> \<lparr>outcome = Inr v, trace = tr @ [Attempt attempt]\<rparr>
         | Inl error \<Rightarrow>
             if attempt < maxRetries \<and> isTimeout error
             then retry_loop fn maxRetries (attempt + 1) (Some error)
                    (tr @ [Attempt attempt, Delay (backoff_delay attempt)])
             else \<lparr>outcome = Inl (Some error), trace = tr @ [Attempt attempt]\<rparr>)
      else \<lparr>outcome = Inl lastError, trace = tr\<rparr>)"
  by pat_completeness auto
termination
  by (relation "measure (\<lambda>(fn, maxRetries, attempt, lastError, tr). maxRetries + 1 - attempt)") auto

declare retry_loop.simps [simp del]

definition retryWithBackoff :: "(nat \<Rightarrow> thrown + 'a) \<Rightarrow> nat \<Rightarrow> 'a retry_run" where
  "retryWithBackoff fn maxRetries = retry_loop fn maxRetries 1 None []"

text \<open>Reading a trace: the attempts made, and the delay slept right before attempt \<open>k\<close>.\<close>

fun attempts_of :: "retry_event list \<Rightarrow> nat list" where
  "attempts_of [] = []"
| "attempts_of (Attempt k # es) = k # attempts_of es"
| "attempts_of (Delay d # es) = attempts_of es"

fun delays_of :: "retry_event list \<Rightarrow> int list" where
  "delays_of [] = []"
| "delays_of (Attempt k # es) = delays_of es"
| "delays_of (Delay d # es) = d # delays_of es"

fun delay_before :: "nat \<Rightarrow> retry_event list \<Rightarrow> int option" where
  "delay_before k [] = None"
| "delay_before k [e] = None"
| "delay_before k (Delay d # Attempt j # es) =
     (if j = k then Some d else delay_before k (Attempt j # es))"
| "delay_before k (e # e' # es) = delay_before k (e' # es)"

section \<open>Configuration (config/contracts.ts, process.env)\<close>

text \<open>\<^verbatim>\<open>process.env\<close>: a variable that is not set reads as \<^verbatim>\<open>undefined\<close>.\<close>

type_synonym env = "string \<rightharpoonup> string"

text \<open>
  A number the configuration obtains with \<^verbatim>\<open>parseInt\<close>: \<open>None\<close> is \<^verbatim>\<open>NaN\<close>, the result for a
  setting that does not start with digits. Every comparison with \<^verbatim>\<open>NaN\<close> is false and
  arithmetic on it stays \<^verbatim>\<open>NaN\<close>.
\<close>

type_synonym num = "int option"

definition num_lt :: "num \<Rightarrow> num \<Rightarrow> bool" where
  "num_lt a b = (case a of None \<Rightarrow> False | Some x \<Rightarrow> (case b of None \<Rightarrow> False | Some y \<Rightarrow> x < y))"

definition num_gt :: "num \<Rightarrow> num \<Rightarrow> bool" where
  "num_gt a b = (case a of None \<Rightarrow> False | Some x \<Rightarrow> (case b of None \<Rightarrow> False | Some y \<Rightarrow> x > y))"

definition num_ge :: "num \<Rightarrow> num \<Rightarrow> bool" where
  "num_ge a b = (case a of None \<Rightarrow> False | Some x \<Rightarrow> (case b of None \<Rightarrow> False | Some y \<Rightarrow> x \<ge> y))"

definition num_times :: "num \<Rightarrow> int \<Rightarrow> num" where
  "num_times a k = map_option (\<lambda>x. x * k) a"

text \<open>
  \<^verbatim>\<open>VERIFICATION_THRESHOLDS\<close>, as the module holds it once loaded: the stake is kept as the
  configured text (in ETH), the other three are \<^verbatim>\<open>parseInt\<close> results.
\<close>

record thresholds =
  minListenerStake :: string
  minListenerReputation :: num
  minConfirmations :: num
  proofExpirySeconds :: num

text \<open>
  The functions of the ethers library and of the merchant wallet that the services call.
  Their code is not part of the repository, so they are parameters of the model;
  \<open>Inl\<close> is the value they throw.
  \<^item> \<open>parseEther\<close>: decimal ETH text to wei;
  \<^item> \<open>formatEther\<close>: wei to decimal ETH text;
  \<^item> \<open>isAddress\<close>: the text is a well-formed address;
  \<^item> \<open>verifyMessage message signature\<close>: the address recovered from a signed message;
  \<^item> \<open>solidityPackedKeccak256 paymentId listener\<close>: the hash of the pair packed as
    \<^verbatim>\<open>['bytes32', 'address']\<close>;
  \<^item> \<open>signMessage\<close>: \<^verbatim>\<open>merchantWallet.signMessage\<close> on the bytes of a hash;
  \<^item> \<open>stringify\<close>: \<^verbatim>\<open>JSON.stringify\<close> of the object with the keys type, payment_id, merchant,
    amount, timestamp and chain_id, in this order;
  \<^item> \<open>numberText\<close>: the runtime's text of a number of the claim (\<^verbatim>\<open>toString()\<close>, or its use
    in a template), which is the decimal text only below \<open>10 ^ 21\<close>.
\<close>

record ethers =
  parseEther :: "string \<Rightarrow> thrown + int"
  formatEther :: "int \<Rightarrow> string"
  isAddress :: "string \<Rightarrow> bool"
  verifyMessage :: "string \<Rightarrow> string \<Rightarrow> thrown + string"
  solidityPackedKeccak256 :: "string \<Rightarrow> string \<Rightarrow> thrown + string"
  signMessage :: "string \<Rightarrow> string"
  stringify :: "string \<Rightarrow> string \<Rightarrow> string \<Rightarrow> string \<Rightarrow> int \<Rightarrow> int \<Rightarrow> string"
  numberText :: "int \<Rightarrow> string"

subsection \<open>Text of numbers and lower case\<close>

definition digit_char :: "nat \<Rightarrow> char" where
  "digit_char d = char_of (48 + d)"

function show_nat :: "nat \<Rightarrow> string" where
  "show_nat n = (if n < 10 then [digit_char n] else show_nat (n div 10) @ [digit_char (n mod 10)])"
  by pat_completeness auto
termination
  by (relation "measure id") auto

declare show_nat.simps [simp del]

definition show_int :: "int \<Rightarrow> string" where
  "show_int i = (if i < 0 then CHR ''-'' # show_nat (nat (- i)) else show_nat (nat i))"

definition show_num :: "num \<Rightarrow> string" where
  "show_num a = (case a of None \<Rightarrow> ''NaN'' | Some i \<Rightarrow> show_int i)"

text \<open>
  \<^verbatim>\<open>toLowerCase\<close> on the letters A to Z; the texts it is applied to (addresses, chain names)
  are ASCII.
\<close>

definition lower_char :: "char \<Rightarrow> char" where
  "lower_char c =
     (if 65 \<le> (of_char c :: nat) \<and> (of_char c :: nat) \<le> 90 then char_of ((of_char c :: nat) + 32) else c)"

definition toLowerCase :: "string \<Rightarrow> string" where
  "toLowerCase s = map lower_char s"

subsection \<open>Conversion of a big integer to a number\<close>

text \<open>
  \<^verbatim>\<open>Number(b)\<close> for a \<^verbatim>\<open>BigInt\<close> \<open>b\<close> is the double nearest to \<open>b\<close>, ties going to the even
  significand. A double has 53 significant bits: \<open>shift_of n\<close> is the number of low bits
  of \<open>n\<close> that do not fit, \<open>double_of_nat n\<close> the rounded value. The contract's integers
  are below \<open>2 ^ 256\<close>, far inside the range of a double.
\<close>

function shift_of :: "nat \<Rightarrow> nat" where
  "shift_of n = (if n < 2 ^ 53 then 0 else Suc (shift_of (n div 2)))"
  by pat_completeness auto
termination
  by (relation "measure id") auto

declare shift_of.simps [simp del]

definition double_of_nat :: "nat \<Rightarrow> nat" where
  "double_of_nat n =
     (let e = shift_of n; q = n div 2 ^ e; r = n mod 2 ^ e in
      if e = 0 then n
      else if 2 ^ e < 2 * r \<or> (2 * r = 2 ^ e \<and> odd q) then (q + 1) * 2 ^ e
      else q * 2 ^ e)"

definition Number_of_bigint :: "int \<Rightarrow> int" where
  "Number_of_bigint b =
     (if b < 0 then - int (double_of_nat (nat (- b))) else int (double_of_nat (nat b)))"

text \<open>The result every check returns: \<^verbatim>\<open>{isValid, reason?, ...data}\<close>.\<close>

record 'd check_result =
  isValid :: bool
  reason :: "string option"
  info :: "'d option"

section \<open>The webhook claim (webhookController.ts, webhookSchema)\<close>

datatype event_type = payment_completed | payment_pending | payment_confirmed | payment_failed

fun type_text :: "event_type \<Rightarrow> string" where
  "type_text payment_completed = ''payment.completed''"
| "type_text payment_pending = ''payment.pending''"
| "type_text payment_confirmed = ''payment.confirmed''"
| "type_text payment_failed = ''payment.failed''"

text \<open>
  A body that passes \<^verbatim>\<open>webhookSchema\<close>; an optional key that is absent is \<open>None\<close>. The
  three numbers are taken to be integers, as timestamps, block numbers and chain ids are.
\<close>

record payload =
  claim_type :: event_type
  claim_payment_id :: string
  claim_merchant :: string
  claim_customer :: string
  claim_amount :: string
  claim_amount_wei :: "string option"
  claim_merchant_amount :: "string option"
  claim_platform_fee :: "string option"
  claim_listener_fee :: "string option"
  claim_timestamp :: int
  claim_block_number :: int
  claim_transaction_hash :: string
  claim_chain_id :: int
  claim_metadata :: "(string \<times> string) list option"

section \<open>Listener verification (listenerVerification.ts)\<close>

text \<open>The tuple \<^verbatim>\<open>getListener\<close> returns, with the component names of the contract's ABI.\<close>

record listener_tuple =
  nodeAddress :: string
  stake :: int
  registeredAt :: int
  totalDelivered :: int
  successfulDeliveries :: int
  failedDeliveries :: int
  totalEarned :: int
  reputation :: int
  active :: bool
  slashed :: bool
  lastActivityTime :: int

text \<open>
  \<^verbatim>\<open>listenerInfo\<close>: either address, stake, reputation, active and slashed, or address and
  \<^verbatim>\<open>degraded: true\<close>. A property the object does not have is \<open>None\<close>.
\<close>

record listener_info =
  info_address :: string
  info_stake :: "string option"
  info_reputation :: "string option"
  info_active :: "bool option"
  info_slashed :: "bool option"
  degraded :: "bool option"

definition verifyListenerSignature ::
  "ethers \<Rightarrow> payload \<Rightarrow> string \<Rightarrow> string \<Rightarrow> bool"
where
  "verifyListenerSignature lib payload sig listenerAddress =
     (if sig = [] \<or> listenerAddress = [] then False
      else
        (let message = stringify lib (type_text (claim_type payload)) (claim_payment_id payload)
                         (claim_merchant payload) (claim_amount payload) (claim_timestamp payload)
                         (claim_chain_id payload)
         in case verifyMessage lib message sig of
              Inl error \<Rightarrow> False
            | Inr recoveredAddress \<Rightarrow> toLowerCase recoveredAddress = toLowerCase listenerAddress))"

text \<open>The \<^verbatim>\<open>catch\<close> clause of \<^verbatim>\<open>verifyListenerRegistered\<close>.\<close>

definition error_text_opt :: "thrown option \<Rightarrow> string" where
  "error_text_opt error = (case error of None \<Rightarrow> ''Unknown error'' | Some e \<Rightarrow> error_text e)"

definition registered_catch :: "env \<Rightarrow> string \<Rightarrow> thrown option \<Rightarrow> listener_info check_result" where
  "registered_catch penv listenerAddress error =
     (let allowDuringRpcFailure = (penv ''ALLOW_DURING_RPC_FAILURE'' = Some ''true'') in
      if allowDuringRpcFailure then
        \<lparr>isValid = True,
         reason = Some ''Verification skipped due to RPC failure (degraded mode)'',
         info = Some \<lparr>info_address = listenerAddress, info_stake = None, info_reputation = None,
                      info_active = None, info_slashed = None, degraded = Some True\<rparr>\<rparr>
      else
        \<lparr>isValid = False,
         reason = Some (''Blockchain query failed after 3 retries: '' @ error_text_opt error),
         info = None\<rparr>)"

text \<open>
  \<open>getListener address k\<close> is the outcome of the \<open>k\<close>-th invocation of
  \<^verbatim>\<open>registryContract.getListener(address)\<close>. The thresholds are read after the tuple has
  been fetched, and \<^verbatim>\<open>parseEther\<close> runs inside the \<^verbatim>\<open>try\<close> block. Stake and minimum are
  compared as big integers. The reputation is first converted with \<^verbatim>\<open>Number\<close>, so it is
  the rounded reputation that is compared with the configured number; the two comparisons
  agree when the configured minimum is at most \<open>2 ^ 53\<close> in size and can differ above.
\<close>

definition verifyListenerRegistered ::
  "ethers \<Rightarrow> thresholds \<Rightarrow> env \<Rightarrow> (string \<Rightarrow> nat \<Rightarrow> thrown + listener_tuple) \<Rightarrow> string
     \<Rightarrow> listener_info check_result"
where
  "verifyListenerRegistered lib th penv getListener listenerAddress =
     (case outcome (retryWithBackoff (getListener listenerAddress) 3) of
        Inl error \<Rightarrow> registered_catch penv listenerAddress error
      | Inr result \<Rightarrow>
          if \<not> active result then
            \<lparr>isValid = False, reason = Some ''Listener is not active'', info = None\<rparr>
          else if slashed result then
            \<lparr>isValid = False, reason = Some ''Listener has been slashed (banned)'', info = None\<rparr>
          else
            (case parseEther lib (minListenerStake th) of
               Inl error \<Rightarrow> registered_catch penv listenerAddress (Some error)
             | Inr minStake \<Rightarrow>
                 if stake result < minStake then
                   \<lparr>isValid = False,
                    reason = Some (''Listener stake too low: '' @ formatEther lib (stake result)
                               @ '' ETH (minimum: '' @ minListenerStake th @ '' ETH)''),
                    info = None\<rparr>
                 else if num_lt (Some (Number_of_bigint (reputation result)))
                           (minListenerReputation th) then
                   \<lparr>isValid = False,
                    reason = Some (''Listener reputation too low: '' @ show_int (reputation result)
                               @ '' (minimum: '' @ show_num (minListenerReputation th) @ '')''),
                    info = None\<rparr>
                 else
                   \<lparr>isValid = True, reason = None,
                    info = Some \<lparr>info_address = listenerAddress,
                                 info_stake = Some (formatEther lib (stake result)),
                                 info_reputation = Some (show_int (reputation result)),
                                 info_active = Some (active result),
                                 info_slashed = Some (slashed result),
                                 degraded = None\<rparr>\<rparr>))"

section \<open>Payment and receipt verification (blockchainVerification.ts)\<close>

text \<open>The tuple \<^verbatim>\<open>getPayment\<close> of the PaymentDatabase contract returns, by its ABI.\<close>

record payment_record =
  db_paymentId :: string
  db_merchant :: string
  db_customer :: string
  db_amount :: int
  db_timestamp :: int
  db_paymentType :: nat
  db_status :: nat
  db_orderId :: string
  db_nonce :: int

record receipt =
  receipt_status :: int
  receipt_blockNumber :: int

text \<open>
  What the service object can reach on the ledger: the PaymentDatabase contract it
  constructs and its provider. Each field is the outcome of the remote call.
\<close>

record ledger =
  getPayment :: "string \<Rightarrow> thrown + payment_record"
  getTransactionReceipt :: "string \<Rightarrow> thrown + receipt option"
  getBlockNumber :: "thrown + int"

record payment_data =
  pd_paymentId :: string
  pd_merchant :: string
  pd_customer :: string
  pd_amount :: string
  pd_amountWei :: string
  pd_timestamp :: int
  pd_status :: string

text \<open>
  \<^verbatim>\<open>verifyPaymentOnChain\<close>. The query of the PaymentDatabase contract is inside a comment
  headed \<^verbatim>\<open>DISABLED - PaymentDatabase removed from architecture\<close>; the statements that run
  are the toggle test and the two returns. \<open>now\<close> is the clock read by \<^verbatim>\<open>new Date()\<close>.
\<close>

definition verifyPaymentOnChain ::
  "ledger \<Rightarrow> ethers \<Rightarrow> env \<Rightarrow> int \<Rightarrow> string \<Rightarrow> string \<Rightarrow> string \<Rightarrow> string
     \<Rightarrow> payment_data check_result"
where
  "verifyPaymentOnChain this lib penv now paymentId merchant customer amount =
     (let skipVerification = (penv ''SKIP_PAYMENT_VERIFICATION'' = Some ''true'') in
      if skipVerification then
        (case parseEther lib amount of
           Inl error \<Rightarrow>
             \<lparr>isValid = False,
              reason = Some (''Blockchain query failed: '' @ error_text error),
              info = None\<rparr>
         | Inr wei \<Rightarrow>
             \<lparr>isValid = True, reason = None,
              info = Some \<lparr>pd_paymentId = paymentId, pd_merchant = merchant,
                           pd_customer = customer, pd_amount = amount,
                           pd_amountWei = show_int wei, pd_timestamp = now,
                           pd_status = ''COMPLETED''\<rparr>\<rparr>)
      else
        \<lparr>isValid = False,
         reason = Some (''Payment verification enabled but PaymentDatabase not available. ''
                        @ ''Set SKIP_PAYMENT_VERIFICATION=true for testnet.''),
         info = None\<rparr>)"

text \<open>
  The checks of the disabled block, kept to say what a matching on-chain record is: the
  record exists (its id is not the zero hash), merchant and customer agree up to case, and
  its status is COMPLETED (1).
\<close>

definition ZeroHash :: string where
  "ZeroHash = ''0x'' @ replicate 64 CHR ''0''"

definition matching_record :: "payment_record \<Rightarrow> string \<Rightarrow> string \<Rightarrow> bool" where
  "matching_record paymentData merchant customer =
     (db_paymentId paymentData \<noteq> ZeroHash \<and>
      toLowerCase (db_merchant paymentData) = toLowerCase merchant \<and>
      toLowerCase (db_customer paymentData) = toLowerCase customer \<and>
      db_status paymentData = 1)"

record tx_info =
  confirmations :: int
  blockNumber :: int

definition verifyTransactionReceipt ::
  "ledger \<Rightarrow> thresholds \<Rightarrow> string \<Rightarrow> tx_info check_result"
where
  "verifyTransactionReceipt this th txHash =
     (case getTransactionReceipt this txHash of
        Inl error \<Rightarrow>
          \<lparr>isValid = False, reason = Some (''Transaction query failed: '' @ error_text error),
           info = None\<rparr>
      | Inr None \<Rightarrow>
          \<lparr>isValid = False, reason = Some ''Transaction not found on blockchain'', info = None\<rparr>
      | Inr (Some rc) \<Rightarrow>
          if receipt_status rc \<noteq> 1 then
            \<lparr>isValid = False, reason = Some ''Transaction failed (status 0)'', info = None\<rparr>
          else
            (case getBlockNumber this of
               Inl error \<Rightarrow>
                 \<lparr>isValid = False,
                  reason = Some (''Transaction query failed: '' @ error_text error), info = None\<rparr>
             | Inr currentBlock \<Rightarrow>
                 let c = currentBlock - receipt_blockNumber rc in
                 if num_lt (Some c) (minConfirmations th) then
                   \<lparr>isValid = False,
                    reason = Some (''Insufficient confirmations: '' @ show_int c
                               @ '' (minimum: '' @ show_num (minConfirmations th) @ '')''),
                    info = Some \<lparr>confirmations = c, blockNumber = receipt_blockNumber rc\<rparr>\<rparr>
                 else
                   \<lparr>isValid = True, reason = None,
                    info = Some \<lparr>confirmations = c, blockNumber = receipt_blockNumber rc\<rparr>\<rparr>))"

section \<open>Duplicate tracker (duplicateTracker.ts)\<close>

record dup_entry =
  listener :: string
  entry_timestamp :: int
  entry_signature :: string

type_synonym tracker = "string \<rightharpoonup> dup_entry"

definition isWebhookProcessed :: "tracker \<Rightarrow> string \<Rightarrow> bool" where
  "isWebhookProcessed processedWebhooks paymentId = (processedWebhooks paymentId \<noteq> None)"

definition markWebhookProcessed :: "tracker \<Rightarrow> int \<Rightarrow> string \<Rightarrow> string \<Rightarrow> string \<Rightarrow> tracker" where
  "markWebhookProcessed processedWebhooks now paymentId listenerAddress sig =
     processedWebhooks(paymentId \<mapsto>
       \<lparr>listener = listenerAddress, entry_timestamp = now, entry_signature = sig\<rparr>)"

definition getProcessingListener :: "tracker \<Rightarrow> string \<Rightarrow> dup_entry option" where
  "getProcessingListener processedWebhooks paymentId = processedWebhooks paymentId"

definition cleanup :: "tracker \<Rightarrow> int \<Rightarrow> tracker" where
  "cleanup processedWebhooks now =
     (let maxAge = 24 * 60 * 60 * 1000 in
      (\<lambda>paymentId.
         case processedWebhooks paymentId of
           None \<Rightarrow> None
         | Some d \<Rightarrow> if now - entry_timestamp d > maxAge then None else Some d))"

section \<open>Proof generator (proofGenerator.ts)\<close>

record proof_params =
  params_payment_id :: string
  params_listener_address :: string
  params_timestamp :: int
  params_webhook_received :: bool
  params_order_id :: "string option"
  params_amount :: "string option"

record merchant_proof =
  mp_message :: string
  mp_signature :: string
  mp_timestamp :: int
  mp_method :: string

text \<open>
  \<^verbatim>\<open>validateProofParams\<close>: \<open>Inl\<close> is the message of the \<^verbatim>\<open>Error\<close> it throws. A text is falsy
  when empty, a number when zero. \<open>now\<close> is the \<^verbatim>\<open>Date.now()\<close> read inside the function;
  times are in milliseconds.
\<close>

definition validateProofParams ::
  "ethers \<Rightarrow> thresholds \<Rightarrow> int \<Rightarrow> proof_params \<Rightarrow> string + unit"
where
  "validateProofParams lib th now params =
     (if params_payment_id params = [] then Inl ''payment_id is required''
      else if params_listener_address params = [] \<or> \<not> isAddress lib (params_listener_address params)
        then Inl ''Valid listener_address is required''
      else if params_timestamp params = 0 \<or> params_timestamp params \<le> 0
        then Inl ''Valid timestamp is required''
      else
        (let age = now - params_timestamp params;
             maxAge = num_times (proofExpirySeconds th) 1000 in
         if num_gt (Some age) maxAge then
           Inl (''Timestamp too old: '' @ show_int (age div 1000) @ ''s (max: ''
                 @ show_num (proofExpirySeconds th) @ ''s)'')
         else if params_timestamp params > now + 60000 then Inl ''Timestamp is in the future''
         else Inr ()))"

text \<open>
  \<^verbatim>\<open>generateMerchantProof\<close> rethrows whatever its body throws: the validation error, or
  the value thrown by the packing of \<^verbatim>\<open>(payment_id, listener_address)\<close>.
\<close>

definition validation_error :: "string \<Rightarrow> thrown" where
  "validation_error msg =
     \<lparr>instanceofError = True, err_code = None, err_message = Some msg, err_stack = None\<rparr>"

definition generateMerchantProof ::
  "ethers \<Rightarrow> thresholds \<Rightarrow> int \<Rightarrow> proof_params \<Rightarrow> thrown + merchant_proof"
where
  "generateMerchantProof lib th now params =
     (case validateProofParams lib th now params of
        Inl msg \<Rightarrow> Inl (validation_error msg)
      | Inr u \<Rightarrow>
          (case solidityPackedKeccak256 lib (params_payment_id params)
                  (params_listener_address params) of
             Inl error \<Rightarrow> Inl error
           | Inr message \<Rightarrow>
               Inr \<lparr>mp_message = message, mp_signature = signMessage lib message,
                    mp_timestamp = params_timestamp params, mp_method = ''simple''\<rparr>))"

section \<open>Process state and effects on the collaborators\<close>

text \<open>
  The order store (prisma), the mail transport and the socket server are collaborators
  outside the repository's services. A call that reaches one of them and returns is
  recorded as an effect; what the call returns, or throws, is an input of the model.
\<close>

record order_row =
  order_orderId :: string
  order_status :: string
  order_customerEmail :: string
  order_totalAmount :: string

record order_update =
  upd_status :: string
  upd_transactionHash :: string
  upd_blockNumber :: int
  upd_confirmations :: int
  upd_chain :: string
  upd_merchantAddress :: string
  upd_customerAddress :: string
  upd_confirmedAt :: "int option"

datatype ws_payload =
    ConfirmationUpdate int num
  | PaymentConfirmed string int
  | PaymentReceived string string string int "bool option"

datatype effect =
    OrderConfirmationsWritten string int
  | OrderMarkedConfirmed string int
  | OrderPaymentWritten string order_update
  | WebhookLogCreated string string string
  | EmailSent string string string string string
  | Emitted string string ws_payload
  | ProofSigned string

text \<open>
  What an interval callback of the confirmation monitor closes over, and a callback that
  has been started and is waiting at one of its \<^verbatim>\<open>await\<close>s: for the confirmations, for the
  write of the confirmations (holding the count), for the write of the confirmed status
  (holding the count and the \<^verbatim>\<open>new Date()\<close> passed to the write), or for the mail (holding
  the count and the row the write returned).
\<close>

record job_closure =
  job_orderId :: string
  job_txHash :: string
  job_chain :: string
  job_io :: bool

datatype stage =
    AwaitConfirmations
  | AwaitWriteConfirmations int
  | AwaitWriteConfirmed int int
  | AwaitMail int order_row

record task =
  task_job :: job_closure
  task_stage :: stage

text \<open>
  The state of the process: the duplicate tracker's map; the monitor's \<^verbatim>\<open>monitoringJobs\<close>
  map from order key to interval handle; the intervals the runtime holds (\<^verbatim>\<open>setInterval\<close>
  adds one under a fresh handle, \<^verbatim>\<open>clearInterval\<close> removes it) and the handles it has
  cleared, in order; the callbacks in flight, each under a number of its own; and the
  effects so far.
\<close>

record world =
  processedWebhooks :: tracker
  monitoringJobs :: "string \<rightharpoonup> nat"
  timers :: "(nat \<times> job_closure) list"
  next_timer :: nat
  cleared :: "nat list"
  running :: "(nat \<times> task) list"
  next_task :: nat
  effects :: "effect list"

definition initial_world :: world where
  "initial_world =
     \<lparr>processedWebhooks = Map.empty, monitoringJobs = Map.empty, timers = [],
      next_timer = 0, cleared = [], running = [], next_task = 0, effects = []\<rparr>"

section \<open>Confirmation monitor (confirmationMonitor.ts, blockchainService.ts, providers.ts)\<close>

text \<open>
  An interval handle is an object of the runtime, so the test \<^verbatim>\<open>if (intervalId)\<close> asks
  whether the map has an entry for the key.
\<close>

definition stopConfirmationMonitoring :: "string \<Rightarrow> world \<Rightarrow> world" where
  "stopConfirmationMonitoring orderId w =
     (case monitoringJobs w orderId of
        None \<Rightarrow> w
      | Some intervalId \<Rightarrow>
          w\<lparr>timers := filter (\<lambda>(t, c). t \<noteq> intervalId) (timers w),
            cleared := cleared w @ [intervalId],
            monitoringJobs := (monitoringJobs w)(orderId := None)\<rparr>)"

definition startConfirmationMonitoring ::
  "string \<Rightarrow> string \<Rightarrow> string \<Rightarrow> bool \<Rightarrow> world \<Rightarrow> world"
where
  "startConfirmationMonitoring orderId txHash chain io w =
     (if monitoringJobs w orderId \<noteq> None then w
      else
        (let intervalId = next_timer w in
         w\<lparr>timers := timers w @ [(intervalId,
                \<lparr>job_orderId = orderId, job_txHash = txHash, job_chain = chain, job_io = io\<rparr>)],
           next_timer := intervalId + 1,
           monitoringJobs := (monitoringJobs w)(orderId \<mapsto> intervalId)\<rparr>))"


text \<open>
  What a callback gets from the ledger, the order store, the mail transport, the socket
  server and the clock when it runs on; it reads the field of the call it was waiting for,
  and \<open>poll_emit\<close> says whether the \<^verbatim>\<open>emit\<close> it makes in this step returns or throws.
\<close>

record poll_inputs =
  poll_receipt :: "thrown + receipt option"
  poll_blockNumber :: "thrown + int"
  poll_write_confirmations :: "thrown + unit"
  poll_write_confirmed :: "thrown + order_row"
  poll_mail :: "thrown + unit"
  poll_emit :: "thrown + unit"
  poll_now :: int

definition supported_chains :: "string list" where
  "supported_chains = [''ethereum'', ''polygon'', ''arbitrum'', ''base'']"

text \<open>
  \<^verbatim>\<open>RPC_PROVIDERS[chain.toLowerCase()]\<close> is a property lookup on an object literal, so the
  two lower-case names that every object inherits are found as well; what is found there
  is not a provider, and calling \<^verbatim>\<open>getTransactionReceipt\<close> on it throws a \<^verbatim>\<open>TypeError\<close>.
\<close>

definition inherited_names :: "string list" where
  "inherited_names = [''constructor'', ''__proto__'']"

definition getTransactionConfirmations :: "poll_inputs \<Rightarrow> string \<Rightarrow> string \<Rightarrow> thrown + int" where
  "getTransactionConfirmations po txHash chain =
     (if toLowerCase chain \<in> set inherited_names then
        Inl (validation_error ''provider.getTransactionReceipt is not a function'')
      else if toLowerCase chain \<notin> set supported_chains then
        Inl (validation_error (''Unsupported chain: '' @ chain))
      else
        (case poll_receipt po of
           Inl error \<Rightarrow> Inl error
         | Inr None \<Rightarrow> Inr 0
         | Inr (Some rc) \<Rightarrow>
             (case poll_blockNumber po of
                Inl error \<Rightarrow> Inl error
              | Inr currentBlock \<Rightarrow> Inr (currentBlock - receipt_blockNumber rc))))"

text \<open>
  The interval callback is an \<^verbatim>\<open>async\<close> function, and \<^verbatim>\<open>setInterval\<close> does not wait for it:
  between two of its \<^verbatim>\<open>await\<close>s anything else may run, another tick of the same interval
  included. \<open>callback_step\<close> runs a waiting callback from the \<^verbatim>\<open>await\<close> that returns to the
  next one: the result is the stage it waits at next, or \<open>None\<close> when it has ended.
  \<open>REQUIRED_CONFIRMATIONS\<close> is the module constant, a \<^verbatim>\<open>parseInt\<close> result. Every statement
  is inside one \<^verbatim>\<open>try\<close>, the mail inside a \<^verbatim>\<open>try\<close> of its own, so a write or an \<^verbatim>\<open>emit\<close>
  that throws ends the callback where it is; in the last step that is before
  \<^verbatim>\<open>stopConfirmationMonitoring\<close>. The two requests inside \<^verbatim>\<open>getTransactionConfirmations\<close>
  are one step, as nothing of the process is read or written between them.
\<close>

definition callback_step ::
  "num \<Rightarrow> poll_inputs \<Rightarrow> task \<Rightarrow> world \<Rightarrow> stage option \<times> world"
where
  "callback_step REQUIRED_CONFIRMATIONS po tk w =
     (let c = task_job tk in
      case task_stage tk of
        AwaitConfirmations \<Rightarrow>
          (case getTransactionConfirmations po (job_txHash c) (job_chain c) of
             Inl error \<Rightarrow> (None, w)
           | Inr confs \<Rightarrow> (Some (AwaitWriteConfirmations confs), w))
      | AwaitWriteConfirmations confs \<Rightarrow>
          (case poll_write_confirmations po of
             Inl error \<Rightarrow> (None, w)
           | Inr u \<Rightarrow>
               (let w1 = w\<lparr>effects := effects w
                           @ [OrderConfirmationsWritten (job_orderId c) confs]\<rparr>
                in
                if job_io c \<and> isl (poll_emit po) then (None, w1)
                else
                  (let w2 = w1\<lparr>effects := effects w1
                              @ (if job_io c
                                 then [Emitted (job_orderId c) ''confirmation-update''
                                         (ConfirmationUpdate confs REQUIRED_CONFIRMATIONS)]
                                 else [])\<rparr>
                   in
                   if num_ge (Some confs) REQUIRED_CONFIRMATIONS
                   then (Some (AwaitWriteConfirmed confs (poll_now po)), w2)
                   else (None, w2))))
      | AwaitWriteConfirmed confs confirmedAt \<Rightarrow>
          (case poll_write_confirmed po of
             Inl error \<Rightarrow> (None, w)
           | Inr order \<Rightarrow>
               (Some (AwaitMail confs order),
                w\<lparr>effects := effects w @ [OrderMarkedConfirmed (job_orderId c) confirmedAt]\<rparr>))
      | AwaitMail confs order \<Rightarrow>
          (let w1 = w\<lparr>effects := effects w
                      @ (case poll_mail po of
                           Inl emailError \<Rightarrow> []
                         | Inr u \<Rightarrow>
                             [EmailSent ''payment-confirmed'' (order_customerEmail order)
                                (job_orderId c) (order_totalAmount order) (job_txHash c)])\<rparr>
           in
           if job_io c \<and> isl (poll_emit po) then (None, w1)
           else
             (None,
              stopConfirmationMonitoring (job_orderId c)
                (w1\<lparr>effects := effects w1
                      @ (if job_io c
                         then [Emitted (job_orderId c) ''payment-confirmed''
                                 (PaymentConfirmed (job_orderId c) confs)]
                         else [])\<rparr>))))"

text \<open>
  A tick of interval \<open>t\<close>: if the interval is still set the runtime starts a callback, which
  runs up to its first \<^verbatim>\<open>await\<close>. \<open>resume\<close> lets the callback numbered \<open>i\<close> run its next step.
\<close>

definition tick :: "nat \<Rightarrow> world \<Rightarrow> world" where
  "tick t w =
     (case map_of (timers w) t of
        None \<Rightarrow> w
      | Some c \<Rightarrow>
          w\<lparr>running := running w @ [(next_task w, \<lparr>task_job = c, task_stage = AwaitConfirmations\<rparr>)],
            next_task := next_task w + 1\<rparr>)"

definition resume :: "num \<Rightarrow> poll_inputs \<Rightarrow> nat \<Rightarrow> world \<Rightarrow> world" where
  "resume REQUIRED_CONFIRMATIONS po i w =
     (case map_of (running w) i of
        None \<Rightarrow> w
      | Some tk \<Rightarrow>
          (let (next, w') = callback_step REQUIRED_CONFIRMATIONS po tk w in
           w'\<lparr>running :=
                 (case next of
                    None \<Rightarrow> filter (\<lambda>(j, x). j \<noteq> i) (running w')
                  | Some st \<Rightarrow>
                      map (\<lambda>(j, x). if j = i then (j, x\<lparr>task_stage := st\<rparr>) else (j, x))
                        (running w'))\<rparr>))"

text \<open>
  Runs of the monitor: any interleaving of starts, stops, ticks and steps of the callbacks
  in flight.
\<close>

datatype monitor_op =
    Start string string string bool
  | Stop string
  | Tick nat
  | Resume nat poll_inputs

fun monitor_step :: "num \<Rightarrow> monitor_op \<Rightarrow> world \<Rightarrow> world" where
  "monitor_step R (Start orderId txHash chain io) w = startConfirmationMonitoring orderId txHash chain io w"
| "monitor_step R (Stop orderId) w = stopConfirmationMonitoring orderId w"
| "monitor_step R (Tick t) w = tick t w"
| "monitor_step R (Resume i po) w = resume R po i w"

fun monitor_run :: "num \<Rightarrow> monitor_op list \<Rightarrow> world \<Rightarrow> world" where
  "monitor_run R [] w = w"
| "monitor_run R (x # xs) w = monitor_run R xs (monitor_step R x w)"







definition times_confirmed :: "string \<Rightarrow> world \<Rightarrow> nat" where
  "times_confirmed orderId w =
     length (filter (\<lambda>e. case e of OrderMarkedConfirmed k ts \<Rightarrow> k = orderId | _ \<Rightarrow> False) (effects w))"

definition monitor_inv :: "world \<Rightarrow> bool" where
  "monitor_inv w =
     (distinct (map fst (timers w)) \<and>
      (\<forall>(t, c) \<in> set (timers w). monitoringJobs w (job_orderId c) = Some t) \<and>
      (\<forall>k t. monitoringJobs w k = Some t \<longrightarrow> (\<exists>c. (t, c) \<in> set (timers w) \<and> job_orderId c = k)) \<and>
      distinct (cleared w) \<and>
      set (cleared w) \<inter> fst ` set (timers w) = {} \<and>
      set (cleared w) \<union> fst ` set (timers w) = {..<next_timer w} \<and>
      (\<forall>(i, tk) \<in> set (running w). i < next_task w))"

section \<open>Webhook orchestrator (webhookController.ts, handleWebhook)\<close>

text \<open>
  The request as the handler reads it: the three headers (\<open>None\<close> when absent) and the
  outcome of \<^verbatim>\<open>webhookSchema.parse(req.body)\<close>, which returns the claim, throws a
  \<^verbatim>\<open>ZodError\<close> with its issues, or throws something else, which the handler rethrows
  into its outer \<^verbatim>\<open>catch\<close>.
\<close>

datatype parse_result = Parsed payload | ZodError "string list" | ParseThrew thrown

record request =
  x_webhook_signature :: "string option"
  x_node_address :: "string option"
  x_payment_id :: "string option"
  parsed_body :: parse_result

text \<open>
  A header is tested for truthiness, and \<^verbatim>\<open>undefined\<close> and the empty text are both falsy:
  the handler sees the text of the header, empty when there is none.
\<close>

definition header_text :: "string option \<Rightarrow> string" where
  "header_text h = (case h of None \<Rightarrow> [] | Some s \<Rightarrow> s)"

record proof_body =
  pb_payment_id :: string
  pb_listener :: string
  pb_merchant_signature :: string
  pb_signed_message :: string
  pb_timestamp :: int
  pb_method :: string

record order_body =
  ob_order_id :: string
  ob_status :: string
  ob_processed_at :: int

text \<open>
  The JSON body of a response, one field per key the handler may write. \<open>None\<close> is a key
  that is absent or \<^verbatim>\<open>null\<close>.
\<close>

record response_body =
  res_status :: "string option"
  res_error :: "string option"
  res_message :: "string option"
  res_details :: "string list option"
  res_processed_by :: "string option"
  res_processed_at :: "int option"
  res_signature :: "string option"
  res_proof :: "proof_body option"
  res_order :: "order_body option"
  res_processing_time_ms :: "int option"

record response =
  http_status :: nat
  json :: response_body

definition empty_body :: response_body where
  "empty_body =
     \<lparr>res_status = None, res_error = None, res_message = None, res_details = None,
      res_processed_by = None, res_processed_at = None, res_signature = None,
      res_proof = None, res_order = None, res_processing_time_ms = None\<rparr>"

text \<open>
  What one request gets from outside the process: the clock at each \<^verbatim>\<open>Date.now()\<close> or
  \<^verbatim>\<open>new Date()\<close>, the ledger, the registry contract, the order store, the mail transport,
  and whether the socket server has been initialised.
\<close>

record collaborators =
  t_start :: int
  t_verify :: int
  t_confirmedAt :: int
  t_proof :: int
  t_validate :: int
  t_mark :: int
  t_processed_at :: int
  t_end :: int
  chain :: ledger
  registry_getListener :: "string \<Rightarrow> nat \<Rightarrow> thrown + listener_tuple"
  order_findFirst :: "thrown + order_row option"
  order_update :: "thrown + order_row"
  webhookLog_create :: "thrown + unit"
  sendMail :: "thrown + unit"
  io_ready :: bool

definition add_effects :: "effect list \<Rightarrow> world \<Rightarrow> world" where
  "add_effects es w = w\<lparr>effects := effects w @ es\<rparr>"

text \<open>\<^verbatim>\<open>txVerification.confirmations || 1\<close>: an absent count and a count of 0 both give 1.\<close>

definition confirmations_or_1 :: "tx_info check_result \<Rightarrow> int" where
  "confirmations_or_1 txVerification =
     (case info txVerification of
        None \<Rightarrow> 1
      | Some i \<Rightarrow> if confirmations i = 0 then 1 else confirmations i)"

text \<open>
  Step 6. The whole block is one \<^verbatim>\<open>try\<close>; mail, socket event and monitor start each have a
  \<^verbatim>\<open>try\<close> of their own. When the update throws, \<^verbatim>\<open>order\<close> still holds the row that was found.
  \<^verbatim>\<open>getIO()\<close> throws when the socket server is not initialised, and then no monitor starts.
\<close>

definition process_order ::
  "ethers \<Rightarrow> collaborators \<Rightarrow> payload \<Rightarrow> tx_info check_result \<Rightarrow> world
     \<Rightarrow> order_row option \<times> world"
where
  "process_order lib orc data txVerification w =
     (case order_findFirst orc of
        Inl dbError \<Rightarrow> (None, w)
      | Inr None \<Rightarrow> (None, w)
      | Inr (Some found) \<Rightarrow>
          (case order_update orc of
             Inl dbError \<Rightarrow> (Some found, w)
           | Inr order \<Rightarrow>
               (let w1 = add_effects
                      [OrderPaymentWritten (order_orderId found)
                         \<lparr>upd_status = (if claim_type data = payment_completed
                                         then ''PAYMENT_CONFIRMED'' else ''PAYMENT_PENDING''),
                          upd_transactionHash = claim_transaction_hash data,
                          upd_blockNumber = claim_block_number data,
                          upd_confirmations = confirmations_or_1 txVerification,
                          upd_chain = ''Chain '' @ numberText lib (claim_chain_id data),
                          upd_merchantAddress = claim_merchant data,
                          upd_customerAddress = claim_customer data,
                          upd_confirmedAt = (if claim_type data = payment_completed
                                             then Some (t_confirmedAt orc) else None)\<rparr>] w;
                    w2 = (case sendMail orc of
                            Inl emailError \<Rightarrow> w1
                          | Inr u \<Rightarrow>
                              add_effects
                                [EmailSent ''payment-received'' (order_customerEmail order)
                                   (claim_payment_id data) (claim_amount data) (claim_transaction_hash data)] w1);
                    w3 = (if io_ready orc
                          then add_effects
                                 [Emitted (order_orderId order) ''payment-received''
                                    (PaymentReceived (order_orderId order) (order_status order)
                                       (claim_transaction_hash data)
                                       (confirmations_or_1 txVerification) None)] w2
                          else w2);
                    w4 = (if (claim_type data = payment_pending \<or> claim_type data = payment_completed)
                             \<and> io_ready orc
                          then startConfirmationMonitoring (order_orderId order)
                                 (claim_transaction_hash data) (numberText lib (claim_chain_id data)) True w3
                          else w3)
                in (Some order, w4))))"

definition log_webhook :: "collaborators \<Rightarrow> payload \<Rightarrow> string \<Rightarrow> world \<Rightarrow> world" where
  "log_webhook orc data listenerSignature w =
     (case webhookLog_create orc of
        Inl dbError \<Rightarrow> w
      | Inr u \<Rightarrow>
          add_effects
            [WebhookLogCreated (claim_payment_id data) (type_text (claim_type data)) listenerSignature] w)"

text \<open>
  Step 7: a proof is generated only when a listener address was supplied, and an exception
  of the generator is caught and logged.
\<close>

definition issue_proof ::
  "ethers \<Rightarrow> thresholds \<Rightarrow> collaborators \<Rightarrow> payload \<Rightarrow> string \<Rightarrow> order_row option \<Rightarrow> world
     \<Rightarrow> merchant_proof option \<times> world"
where
  "issue_proof lib th orc data listenerAddress order w =
     (if listenerAddress \<noteq> [] then
        (case generateMerchantProof lib th (t_validate orc)
                \<lparr>params_payment_id = claim_payment_id data,
                 params_listener_address = listenerAddress,
                 params_timestamp = t_proof orc,
                 params_webhook_received = True,
                 params_order_id = map_option order_orderId order,
                 params_amount = Some (claim_amount data)\<rparr> of
           Inl proofError \<Rightarrow> (None, w)
         | Inr merchantProof \<Rightarrow>
             (Some merchantProof, add_effects [ProofSigned (mp_signature merchantProof)] w))
      else (None, w))"

text \<open>\<^verbatim>\<open>merchantProof?.signature || ''\<close>.\<close>

definition signature_or_empty :: "merchant_proof option \<Rightarrow> string" where
  "signature_or_empty merchantProof =
     (case merchantProof of None \<Rightarrow> [] | Some p \<Rightarrow> mp_signature p)"

definition mark_processed ::
  "collaborators \<Rightarrow> payload \<Rightarrow> string \<Rightarrow> merchant_proof option \<Rightarrow> world \<Rightarrow> world"
where
  "mark_processed orc data listenerAddress merchantProof w =
     (if listenerAddress \<noteq> [] then
        w\<lparr>processedWebhooks :=
             markWebhookProcessed (processedWebhooks w) (t_mark orc) (claim_payment_id data)
               listenerAddress (signature_or_empty merchantProof)\<rparr>
      else w)"

definition emit_checkout ::
  "collaborators \<Rightarrow> payload \<Rightarrow> tx_info check_result \<Rightarrow> merchant_proof option \<Rightarrow> world \<Rightarrow> world"
where
  "emit_checkout orc data txVerification merchantProof w =
     (if io_ready orc then
        add_effects
          [Emitted (claim_payment_id data) ''payment-received''
             (PaymentReceived (claim_payment_id data) ''PAYMENT_CONFIRMED'' (claim_transaction_hash data)
                (confirmations_or_1 txVerification) (Some (merchantProof \<noteq> None))),
           Emitted (claim_transaction_hash data) ''payment-received''
             (PaymentReceived (claim_payment_id data) ''PAYMENT_CONFIRMED'' (claim_transaction_hash data)
                (confirmations_or_1 txVerification) (Some (merchantProof \<noteq> None)))] w
      else w)"

definition success_response ::
  "collaborators \<Rightarrow> payload \<Rightarrow> string \<Rightarrow> merchant_proof option \<Rightarrow> order_row option \<Rightarrow> response"
where
  "success_response orc data listenerAddress merchantProof order =
     \<lparr>http_status = 200,
      json = empty_body
        \<lparr>res_status := Some ''success'',
         res_message := Some ''Payment processed successfully'',
         res_signature :=
           (case merchantProof of
              None \<Rightarrow> None
            | Some p \<Rightarrow> if mp_signature p = [] then None else Some (mp_signature p)),
         res_proof :=
           map_option
             (\<lambda>p. \<lparr>pb_payment_id = claim_payment_id data, pb_listener = listenerAddress,
                    pb_merchant_signature = mp_signature p, pb_signed_message = mp_message p,
                    pb_timestamp = mp_timestamp p, pb_method = mp_method p\<rparr>)
             merchantProof,
         res_order :=
           map_option
             (\<lambda>r. \<lparr>ob_order_id = order_orderId r, ob_status = order_status r,
                    ob_processed_at = t_processed_at orc\<rparr>)
             order,
         res_processing_time_ms := Some (t_end orc - t_start orc)\<rparr>\<rparr>"

text \<open>Steps 5b to 9, which a claim reaches once every check has passed.\<close>

definition process_verified ::
  "ethers \<Rightarrow> thresholds \<Rightarrow> collaborators \<Rightarrow> request \<Rightarrow> payload \<Rightarrow> world \<Rightarrow> response \<times> world"
where
  "process_verified lib th orc req data w =
     (let listenerAddress = header_text (x_node_address req);
          txVerification = verifyTransactionReceipt (chain orc) th (claim_transaction_hash data);
          (order, w1) = process_order lib orc data txVerification w;
          w2 = log_webhook orc data (header_text (x_webhook_signature req)) w1;
          (merchantProof, w3) = issue_proof lib th orc data listenerAddress order w2;
          w4 = mark_processed orc data listenerAddress merchantProof w3;
          w5 = emit_checkout orc data txVerification merchantProof w4
      in (success_response orc data listenerAddress merchantProof order, w5))"

text \<open>\<^verbatim>\<open>registrationCheck.reason || 'Listener not registered or not authorized'\<close>.\<close>

definition reason_or_default :: "string option \<Rightarrow> string" where
  "reason_or_default r =
     (case r of
        None \<Rightarrow> ''Listener not registered or not authorized''
      | Some s \<Rightarrow> if s = [] then ''Listener not registered or not authorized'' else s)"

text \<open>
  \<^verbatim>\<open>message: error instanceof Error ? error.message : 'Unknown error'\<close> as a JSON value: a
  message that is \<^verbatim>\<open>undefined\<close> leaves the key out.
\<close>

definition error_message_json :: "thrown \<Rightarrow> string option" where
  "error_message_json error =
     (if instanceofError error then err_message error else Some ''Unknown error'')"

definition handleWebhook ::
  "ethers \<Rightarrow> thresholds \<Rightarrow> env \<Rightarrow> collaborators \<Rightarrow> request \<Rightarrow> world \<Rightarrow> response \<times> world"
where
  "handleWebhook lib th penv orc req w =
     (let listenerSignature = header_text (x_webhook_signature req);
          listenerAddress = header_text (x_node_address req)
      in
      case parsed_body req of
        ZodError issues \<Rightarrow>
          (\<lparr>http_status = 400,
            json = empty_body\<lparr>res_error := Some ''Invalid payload'',
                              res_details := Some issues\<rparr>\<rparr>, w)
      | ParseThrew error \<Rightarrow>
          (\<lparr>http_status = 500,
            json = empty_body\<lparr>res_error := Some ''Internal server error'',
                              res_message := error_message_json error\<rparr>\<rparr>, w)
      | Parsed data \<Rightarrow>
          if isWebhookProcessed (processedWebhooks w) (claim_payment_id data) then
            (let existing = getProcessingListener (processedWebhooks w) (claim_payment_id data) in
             (\<lparr>http_status = 200,
               json = empty_body\<lparr>res_status := Some ''already_processed'',
                                 res_message := Some ''This payment was already handled'',
                                 res_processed_by := map_option listener existing,
                                 res_processed_at := map_option entry_timestamp existing,
                                 res_proof := None\<rparr>\<rparr>, w))
          else if listenerSignature \<noteq> [] \<and> listenerAddress \<noteq> [] \<and>
                  \<not> verifyListenerSignature lib data listenerSignature listenerAddress then
            (\<lparr>http_status = 401,
              json = empty_body\<lparr>res_error := Some ''Invalid signature'',
                                res_message := Some ''Webhook signature verification failed''\<rparr>\<rparr>,
             w)
          else if listenerAddress \<noteq> [] \<and>
                  \<not> isValid (verifyListenerRegistered lib th penv (registry_getListener orc)
                               listenerAddress) then
            (\<lparr>http_status = 403,
              json = empty_body\<lparr>res_error := Some ''Unauthorized listener'',
                                res_message := Some (reason_or_default
                                  (reason (verifyListenerRegistered lib th penv
                                     (registry_getListener orc) listenerAddress)))\<rparr>\<rparr>,
             w)
          else
            (let paymentVerification =
                   verifyPaymentOnChain (chain orc) lib penv (t_verify orc) (claim_payment_id data)
                     (claim_merchant data) (claim_customer data) (claim_amount data)
             in
             if \<not> isValid paymentVerification then
               (\<lparr>http_status = 400,
                 json = empty_body\<lparr>res_error := Some ''Invalid payment'',
                                   res_message := reason paymentVerification\<rparr>\<rparr>, w)
             else process_verified lib th orc req data w))"

text \<open>The proof signatures issued so far, in order.\<close>

fun proofs_signed :: "effect list \<Rightarrow> string list" where
  "proofs_signed [] = []"
| "proofs_signed (ProofSigned s # es) = s # proofs_signed es"
| "proofs_signed (e # es) = proofs_signed es"


section \<open>Sample values for the witnesses\<close>

abbreviation (input) sample_timeout :: thrown where
  "sample_timeout \<equiv> \<lparr>instanceofError = True, err_code = Some ''TIMEOUT'',
                      err_message = Some ''request timeout'', err_stack = None\<rparr>"

abbreviation (input) sample_invalid_argument :: thrown where
  "sample_invalid_argument \<equiv> \<lparr>instanceofError = True, err_code = Some ''INVALID_ARGUMENT'',
                      err_message = Some ''invalid value'', err_stack = None\<rparr>"

abbreviation (input) sample_address :: string where
  "sample_address \<equiv> ''0x00000000000000000000000000000000000000a1''"

abbreviation (input) sample_payment_id :: string where
  "sample_payment_id \<equiv> ''0x1111111111111111111111111111111111111111111111111111111111111111''"

abbreviation (input) sample_lib :: ethers where
  "sample_lib \<equiv>
     \<lparr>parseEther = (\<lambda>s. if s = ''0.01'' then Inr 10000000000000000
                         else if s = ''1.5'' then Inr 1500000000000000000
                         else Inl sample_invalid_argument),
      formatEther = (\<lambda>w. show_int (w div 1000000000000000000) @ ''.'' @ show_int (w mod 1000000000000000000)),
      isAddress = (\<lambda>s. s = sample_address),
      verifyMessage = (\<lambda>m s. if s = ''0xsigned:'' @ m
                               then Inr ''0x00000000000000000000000000000000000000A1''
                               else Inl sample_invalid_argument),
      solidityPackedKeccak256 = (\<lambda>p l. if length p = 66 then Inr (''0xhash:'' @ p @ l)
                                           else Inl sample_invalid_argument),
      signMessage = (\<lambda>m. ''0xmerchant:'' @ m),
      stringify = (\<lambda>t p m a ts c. t @ ''|'' @ p @ ''|'' @ m @ ''|'' @ a @ ''|'' @ show_int ts @ ''|'' @ show_int c),
      numberText = show_int\<rparr>"

abbreviation (input) sample_thresholds :: thresholds where
  "sample_thresholds \<equiv>
     \<lparr>minListenerStake = ''0.01'', minListenerReputation = Some 30,
      minConfirmations = Some 3, proofExpirySeconds = Some 3600\<rparr>"

abbreviation (input) sample_listener :: listener_tuple where
  "sample_listener \<equiv>
     \<lparr>nodeAddress = sample_address,
      stake = 50000000000000000, registeredAt = 1700000000, totalDelivered = 10,
      successfulDeliveries = 9, failedDeliveries = 1, totalEarned = 0, reputation = 80,
      active = True, slashed = False, lastActivityTime = 1700000500\<rparr>"

abbreviation (input) sample_ledger :: ledger where
  "sample_ledger \<equiv>
     \<lparr>getPayment = (\<lambda>p. Inr \<lparr>db_paymentId = p, db_merchant = ''0xMerchant'',
                              db_customer = ''0xCustomer'', db_amount = 1500000000000000000,
                              db_timestamp = 1700000000, db_paymentType = 0, db_status = 1,
                              db_orderId = ''order-1'', db_nonce = 1\<rparr>),
      getTransactionReceipt = (\<lambda>h. Inr (Some \<lparr>receipt_status = 1, receipt_blockNumber = 100\<rparr>)),
      getBlockNumber = Inr 112\<rparr>"

abbreviation (input) skip_on :: env where
  "skip_on \<equiv> [''SKIP_PAYMENT_VERIFICATION'' \<mapsto> ''true'']"

abbreviation (input) degraded_on :: env where
  "degraded_on \<equiv> [''ALLOW_DURING_RPC_FAILURE'' \<mapsto> ''true'']"


abbreviation (input) sample_order :: order_row where
  "sample_order \<equiv>
     \<lparr>order_orderId = ''order-1'', order_status = ''PAYMENT_CONFIRMED'',
      order_customerEmail = ''customer@example.org'', order_totalAmount = ''1.5''\<rparr>"

abbreviation (input) sample_poll :: "int \<Rightarrow> poll_inputs" where
  "sample_poll currentBlock \<equiv>
     \<lparr>poll_receipt = Inr (Some \<lparr>receipt_status = 1, receipt_blockNumber = 100\<rparr>),
      poll_blockNumber = Inr currentBlock,
      poll_write_confirmations = Inr (),
      poll_write_confirmed = Inr sample_order,
      poll_mail = Inr (),
      poll_emit = Inr (),
      poll_now = 1700000000000 + currentBlock\<rparr>"



abbreviation (input) sample_overlapping :: world where
  "sample_overlapping \<equiv>
     monitor_run (Some 12)
       [Start ''order-1'' ''0xtx'' ''ethereum'' True,
        Tick 0, Tick 0,
        Resume 0 (sample_poll 112), Resume 1 (sample_poll 112),
        Resume 0 (sample_poll 112), Resume 1 (sample_poll 112),
        Resume 0 (sample_poll 112), Resume 1 (sample_poll 112),
        Resume 0 (sample_poll 112), Resume 1 (sample_poll 112)]
       initial_world"


abbreviation (input) sample_claim :: payload where
  "sample_claim \<equiv>
     \<lparr>claim_type = payment_completed, claim_payment_id = sample_payment_id,
      claim_merchant = ''0xMerchant'', claim_customer = ''0xCustomer'', claim_amount = ''1.5'',
      claim_amount_wei = None, claim_merchant_amount = None, claim_platform_fee = None,
      claim_listener_fee = None, claim_timestamp = 1700000000, claim_block_number = 100,
      claim_transaction_hash = ''0xtx'', claim_chain_id = 11155111, claim_metadata = None\<rparr>"

abbreviation (input) sample_collaborators :: collaborators where
  "sample_collaborators \<equiv>
     \<lparr>t_start = 1700000000000, t_verify = 1700000000005, t_confirmedAt = 1700000000010,
      t_proof = 1700000000020, t_validate = 1700000000021, t_mark = 1700000000022,
      t_processed_at = 1700000000030, t_end = 1700000000031,
      chain = sample_ledger,
      registry_getListener = (\<lambda>a k. Inr sample_listener),
      order_findFirst = Inr (Some sample_order),
      order_update = Inr sample_order,
      webhookLog_create = Inr (),
      sendMail = Inr (),
      io_ready = True\<rparr>"

abbreviation (input) sample_request :: "string option \<Rightarrow> payload \<Rightarrow> request" where
  "sample_request address claim \<equiv>
     \<lparr>x_webhook_signature = None, x_node_address = address, x_payment_id = None,
      parsed_body = Parsed claim\<rparr>"

abbreviation (input) sample_marked :: world where
  "sample_marked \<equiv>
     initial_world\<lparr>processedWebhooks :=
       [sample_payment_id \<mapsto>
          \<lparr>listener = ''0x00000000000000000000000000000000000000b2'',
           entry_timestamp = 1699999990000, entry_signature = ''0xmerchant:first''\<rparr>]\<rparr>"

section \<open>Properties of the retrying ledger client\<close>

lemma retry_loop_at_3:
  "retry_loop fn 3 3 l t =
     (case fn 3 of
        Inr v \<Rightarrow> \<lparr>outcome = Inr v, trace = t @ [Attempt 3]\<rparr>
      | Inl e \<Rightarrow> \<lparr>outcome = Inl (Some e), trace = t @ [Attempt 3]\<rparr>)"
  by (subst retry_loop.simps) (simp del: One_nat_def split: sum.splits)

lemma retry_loop_at_2:
  "retry_loop fn 3 2 l t =
     (case fn 2 of
        Inr v \<Rightarrow> \<lparr>outcome = Inr v, trace = t @ [Attempt 2]\<rparr>
      | Inl e \<Rightarrow>
          if isTimeout e then retry_loop fn 3 3 (Some e) (t @ [Attempt 2, Delay 2000])
          else \<lparr>outcome = Inl (Some e), trace = t @ [Attempt 2]\<rparr>)"
  by (subst retry_loop.simps) (simp del: One_nat_def add: backoff_delay_def baseDelay_def split: sum.splits)

lemma retry_loop_at_1:
  "retry_loop fn 3 1 l t =
     (case fn 1 of
        Inr v \<Rightarrow> \<lparr>outcome = Inr v, trace = t @ [Attempt 1]\<rparr>
      | Inl e \<Rightarrow>
          if isTimeout e then retry_loop fn 3 2 (Some e) (t @ [Attempt 1, Delay 1000])
          else \<lparr>outcome = Inl (Some e), trace = t @ [Attempt 1]\<rparr>)"
  by (subst retry_loop.simps) (simp del: One_nat_def add: backoff_delay_def baseDelay_def split: sum.splits)

lemma retry3_cases:
  "retryWithBackoff fn 3 =
    (case fn 1 of
       Inr v \<Rightarrow> \<lparr>outcome = Inr v, trace = [Attempt 1]\<rparr>
     | Inl e1 \<Rightarrow>
         if \<not> isTimeout e1 then \<lparr>outcome = Inl (Some e1), trace = [Attempt 1]\<rparr>
         else (case fn 2 of
            Inr v \<Rightarrow> \<lparr>outcome = Inr v, trace = [Attempt 1, Delay 1000, Attempt 2]\<rparr>
          | Inl e2 \<Rightarrow>
              if \<not> isTimeout e2
              then \<lparr>outcome = Inl (Some e2), trace = [Attempt 1, Delay 1000, Attempt 2]\<rparr>
              else (case fn 3 of
                 Inr v \<Rightarrow> \<lparr>outcome = Inr v,
                     trace = [Attempt 1, Delay 1000, Attempt 2, Delay 2000, Attempt 3]\<rparr>
               | Inl e3 \<Rightarrow> \<lparr>outcome = Inl (Some e3),
                     trace = [Attempt 1, Delay 1000, Attempt 2, Delay 2000, Attempt 3]\<rparr>)))"
  by (simp del: One_nat_def add: retryWithBackoff_def retry_loop_at_1 retry_loop_at_2 retry_loop_at_3
        split: sum.splits)

text \<open>
  Claim C2 (as amended). For every ledger call made through the retrying client with the
  budget of 3 that every caller passes: at most 3 attempts are made, with one delay between
  consecutive attempts and none otherwise; the delay slept before attempt \<open>k\<close> (\<open>k \<ge> 2\<close>) is
  \<open>min (1000 * 2 ^ (k - 2)) 5000\<close> milliseconds, i.e. 1000 ms before attempt 2 and 2000 ms
  before attempt 3, and attempt \<open>k\<close> is made only when attempt \<open>k - 1\<close> failed with a failure
  classified transient; any other failure is propagated at once, the failed attempt being
  the last event of the run; two transient failures followed by a success return the
  success value; three transient failures propagate the last error.
\<close>

theorem retryWithBackoff_policy:
  fixes fn :: "nat \<Rightarrow> thrown + 'a"
  shows
  "length (attempts_of (trace (retryWithBackoff fn 3))) \<le> 3 \<and>
   length (delays_of (trace (retryWithBackoff fn 3))) =
     length (attempts_of (trace (retryWithBackoff fn 3))) - 1 \<and>
   (\<forall>k \<in> set (attempts_of (trace (retryWithBackoff fn 3))). 2 \<le> k \<longrightarrow>
      delay_before k (trace (retryWithBackoff fn 3)) = Some (min (1000 * 2 ^ (k - 2)) 5000) \<and>
      (\<exists>e. fn (k - 1) = Inl e \<and> isTimeout e)) \<and>
   (\<forall>k \<in> set (attempts_of (trace (retryWithBackoff fn 3))). \<forall>e.
      fn k = Inl e \<and> \<not> isTimeout e \<longrightarrow>
      outcome (retryWithBackoff fn 3) = Inl (Some e) \<and>
      last (trace (retryWithBackoff fn 3)) = Attempt k) \<and>
   (\<forall>e1 e2 v. fn 1 = Inl e1 \<and> isTimeout e1 \<and> fn 2 = Inl e2 \<and> isTimeout e2 \<and> fn 3 = Inr v \<longrightarrow>
      outcome (retryWithBackoff fn 3) = Inr v) \<and>
   (\<forall>e1 e2 e3. fn 1 = Inl e1 \<and> isTimeout e1 \<and> fn 2 = Inl e2 \<and> isTimeout e2 \<and>
      fn 3 = Inl e3 \<and> isTimeout e3 \<longrightarrow>
      outcome (retryWithBackoff fn 3) = Inl (Some e3))"
  unfolding retry3_cases
  by (cases "fn 1"; cases "fn 2"; cases "fn 3")
     (simp_all del: One_nat_def add: One_nat_def [symmetric])

text \<open>
  The policy at three concrete calls: one that times out twice and then resolves to 7, one
  that is unreachable at every attempt, one that reverts at the first attempt.
\<close>

theorem retryWithBackoff_policy_witness:
  "2 \<in> set (attempts_of (trace (retryWithBackoff
      (\<lambda>k. if k < 3
            then Inl \<lparr>instanceofError = True, err_code = Some ''TIMEOUT'',
                      err_message = Some ''request timeout'', err_stack = None\<rparr>
            else Inr (7::nat)) 3))) \<and>
   delay_before 2 (trace (retryWithBackoff
      (\<lambda>k. if k < 3
            then Inl \<lparr>instanceofError = True, err_code = Some ''TIMEOUT'',
                      err_message = Some ''request timeout'', err_stack = None\<rparr>
            else Inr (7::nat)) 3)) = Some 1000 \<and>
   outcome (retryWithBackoff
      (\<lambda>k. if k < 3
            then Inl \<lparr>instanceofError = True, err_code = Some ''TIMEOUT'',
                      err_message = Some ''request timeout'', err_stack = None\<rparr>
            else Inr (7::nat)) 3) = Inr 7 \<and>
   outcome (retryWithBackoff
      (\<lambda>k. Inl \<lparr>instanceofError = True, err_code = None,
                   err_message = Some ''network unreachable'', err_stack = None\<rparr>
          :: thrown + nat) 3)
     = Inl (Some \<lparr>instanceofError = True, err_code = None,
                   err_message = Some ''network unreachable'', err_stack = None\<rparr>) \<and>
   1 \<in> set (attempts_of (trace (retryWithBackoff
      (\<lambda>k. Inl \<lparr>instanceofError = True, err_code = Some ''CALL_EXCEPTION'',
                   err_message = Some ''execution reverted'', err_stack = None\<rparr>
          :: thrown + nat) 3))) \<and>
   last (trace (retryWithBackoff
      (\<lambda>k. Inl \<lparr>instanceofError = True, err_code = Some ''CALL_EXCEPTION'',
                   err_message = Some ''execution reverted'', err_stack = None\<rparr>
          :: thrown + nat) 3)) = Attempt 1"
  using
    retryWithBackoff_policy [of "\<lambda>k. if k < 3
            then Inl \<lparr>instanceofError = True, err_code = Some ''TIMEOUT'',
                      err_message = Some ''request timeout'', err_stack = None\<rparr>
            else Inr (7::nat)"]
    retryWithBackoff_policy [of "\<lambda>k. Inl \<lparr>instanceofError = True, err_code = None,
                   err_message = Some ''network unreachable'', err_stack = None\<rparr>
          :: thrown + nat"]
    retryWithBackoff_policy [of "\<lambda>k. Inl \<lparr>instanceofError = True, err_code = Some ''CALL_EXCEPTION'',
                   err_message = Some ''execution reverted'', err_stack = None\<rparr>
          :: thrown + nat"]
  by (simp del: One_nat_def add: retry3_cases isTimeout_def)

text \<open>
  The delay formula with exponent \<open>k - 1\<close> does not describe the code: before attempt 2 of a
  call that times out twice the client sleeps 1000 ms, not \<open>min (1000 * 2 ^ (2 - 1)) 5000 = 2000\<close>.
\<close>

theorem retryWithBackoff_delay_counterexample:
  "2 \<in> set (attempts_of (trace (retryWithBackoff
      (\<lambda>k. if k < 3
            then Inl \<lparr>instanceofError = True, err_code = Some ''TIMEOUT'',
                      err_message = Some ''request timeout'', err_stack = None\<rparr>
            else Inr (7::nat)) 3))) \<and>
   delay_before 2 (trace (retryWithBackoff
      (\<lambda>k. if k < 3
            then Inl \<lparr>instanceofError = True, err_code = Some ''TIMEOUT'',
                      err_message = Some ''request timeout'', err_stack = None\<rparr>
            else Inr (7::nat)) 3)) \<noteq> Some (min (1000 * 2 ^ (2 - 1)) 5000)"
  by (simp del: One_nat_def add: retry3_cases isTimeout_def)

section \<open>Properties of the listener registry check\<close>

lemma double_of_nat_small: "n < 2 ^ 53 \<Longrightarrow> double_of_nat n = n"
  by (simp add: double_of_nat_def shift_of.simps [of n])


lemma shift_of_bounds:
  "2 ^ 53 \<le> n \<Longrightarrow> 0 < shift_of n \<and> 2 ^ 52 \<le> n div 2 ^ shift_of n"
proof (induction n rule: shift_of.induct)
  case (1 n)
  show ?case
  proof (cases "n div 2 < 2 ^ 53")
    case True
    then have "shift_of (n div 2) = 0" by (simp add: shift_of.simps [of "n div 2"])
    with "1.prems" show ?thesis by (simp add: shift_of.simps [of n])
  next
    case False
    then have "2 ^ 53 \<le> n div 2" by simp
    with "1.IH" "1.prems" have "2 ^ 52 \<le> (n div 2) div 2 ^ shift_of (n div 2)" by simp
    with "1.prems" show ?thesis
      by (simp add: shift_of.simps [of n] div_mult2_eq)
  qed
qed

lemma double_of_nat_large:
  assumes "2 ^ 53 \<le> n"
  shows "2 ^ 53 \<le> double_of_nat n"
proof -
  define e where "e = shift_of n"
  define q where "q = n div 2 ^ e"
  from shift_of_bounds [OF assms] have e: "0 < e" and q: "2 ^ 52 \<le> q"
    by (simp_all add: e_def q_def)
  from e have "(2::nat) \<le> 2 ^ e"
    by (metis One_nat_def Suc_leI one_le_numeral power_increasing power_one_right)
  with q have "2 ^ 52 * 2 \<le> q * 2 ^ e" by (rule mult_le_mono)
  then have low: "2 ^ 53 \<le> q * 2 ^ e" by simp
  then have "2 ^ 53 \<le> (q + 1) * 2 ^ e" by (simp add: algebra_simps)
  with low e show ?thesis
    by (simp add: double_of_nat_def Let_def e_def [symmetric] q_def [symmetric])
qed

lemma Number_below_minimum:
  assumes "- (2 ^ 53) < m" and "m \<le> 2 ^ 53"
  shows "Number_of_bigint r < m \<longleftrightarrow> r < m"
proof (cases "r < 0")
  case False
  show ?thesis
  proof (cases "nat r < 2 ^ 53")
    case True
    with False show ?thesis by (simp add: Number_of_bigint_def double_of_nat_small)
  next
    case False
    then have n: "2 ^ 53 \<le> nat r" by simp
    then have "2 ^ 53 \<le> double_of_nat (nat r)" by (rule double_of_nat_large)
    then have "int (2 ^ 53) \<le> int (double_of_nat (nat r))" by (simp only: of_nat_le_iff)
    then have "(2 ^ 53 :: int) \<le> int (double_of_nat (nat r))" by simp
    moreover from n \<open>\<not> r < 0\<close> have "(2 ^ 53 :: int) \<le> r" by simp
    ultimately show ?thesis using \<open>\<not> r < 0\<close> assms by (simp add: Number_of_bigint_def)
  qed
next
  case True
  show ?thesis
  proof (cases "nat (- r) < 2 ^ 53")
    case small: True
    with True show ?thesis by (simp add: Number_of_bigint_def double_of_nat_small)
  next
    case False
    then have n: "2 ^ 53 \<le> nat (- r)" by simp
    then have "2 ^ 53 \<le> double_of_nat (nat (- r))" by (rule double_of_nat_large)
    then have "int (2 ^ 53) \<le> int (double_of_nat (nat (- r)))" by (simp only: of_nat_le_iff)
    then have "- int (double_of_nat (nat (- r))) \<le> - (2 ^ 53)" by simp
    moreover from n True have "r \<le> - (2 ^ 53)" by simp
    ultimately show ?thesis using True assms by (simp add: Number_of_bigint_def)
  qed
qed

lemma shift_of_example: "shift_of 9007199254740995 = 1"
  by (simp add: shift_of.simps [of 9007199254740995] shift_of.simps [of 4503599627370497])

lemma Number_rounds_to_even: "Number_of_bigint 9007199254740995 = 9007199254740996"
  by (simp add: Number_of_bigint_def double_of_nat_def shift_of_example)

text \<open>
  Above \<open>2 ^ 53\<close> the rounding shows: against a configured minimum of 9007199254740996 a
  reputation of 9007199254740995 passes, as \<^verbatim>\<open>Number\<close> rounds it up to the minimum.
\<close>

lemma reputation_rounding_example:
  "isValid (verifyListenerRegistered sample_lib
      (sample_thresholds\<lparr>minListenerReputation := Some 9007199254740996\<rparr>) Map.empty
      (\<lambda>a k. Inr (sample_listener\<lparr>reputation := 9007199254740995\<rparr>)) sample_address)"
  by (simp add: verifyListenerRegistered_def retry3_cases num_lt_def Number_rounds_to_even)

text \<open>
  Claim C3. For every registry snapshot the query returns, the registry check tests, in
  this order: not active; slashed; stake below the configured minimum; reputation below
  the configured minimum. The first test that fires gives \<open>isValid = False\<close> with the reason
  naming it, and \<open>isValid = True\<close> is returned when all four pass. The configured minimum
  stake is the wei value of the configured text; the configured minimum reputation is a
  number above \<open>- 2 ^ 53\<close> and at most \<open>2 ^ 53\<close>, the range in which the rounding of the
  reputation to a number cannot change the outcome of the test.
\<close>

theorem verifyListenerRegistered_priority:
  assumes "outcome (retryWithBackoff (getListener a) 3) = Inr snap"
  shows
  "(\<not> active snap \<longrightarrow>
      verifyListenerRegistered lib th penv getListener a =
        \<lparr>isValid = False, reason = Some ''Listener is not active'', info = None\<rparr>) \<and>
   (active snap \<and> slashed snap \<longrightarrow>
      verifyListenerRegistered lib th penv getListener a =
        \<lparr>isValid = False, reason = Some ''Listener has been slashed (banned)'', info = None\<rparr>) \<and>
   (\<forall>minStake minRep.
      parseEther lib (minListenerStake th) = Inr minStake \<and> minListenerReputation th = Some minRep \<and>
      - (2 ^ 53) < minRep \<and> minRep \<le> 2 ^ 53 \<longrightarrow>
      (active snap \<and> \<not> slashed snap \<and> stake snap < minStake \<longrightarrow>
         \<not> isValid (verifyListenerRegistered lib th penv getListener a) \<and>
         reason (verifyListenerRegistered lib th penv getListener a) =
           Some (''Listener stake too low: '' @ formatEther lib (stake snap)
                   @ '' ETH (minimum: '' @ minListenerStake th @ '' ETH)'')) \<and>
      (active snap \<and> \<not> slashed snap \<and> minStake \<le> stake snap \<and> reputation snap < minRep \<longrightarrow>
         \<not> isValid (verifyListenerRegistered lib th penv getListener a) \<and>
         reason (verifyListenerRegistered lib th penv getListener a) =
           Some (''Listener reputation too low: '' @ show_int (reputation snap)
                   @ '' (minimum: '' @ show_int minRep @ '')'')) \<and>
      (active snap \<and> \<not> slashed snap \<and> minStake \<le> stake snap \<and> minRep \<le> reputation snap \<longrightarrow>
         isValid (verifyListenerRegistered lib th penv getListener a) \<and>
         reason (verifyListenerRegistered lib th penv getListener a) = None))"
  using assms
  by (auto simp add: verifyListenerRegistered_def num_lt_def show_num_def Number_below_minimum)

text \<open>
  The five outcomes at concrete snapshots, with a minimum stake of 0.01 ETH and a minimum
  reputation of 30. The inactive snapshot is also slashed, under-staked and under-reputed,
  and the reason names the first test only.
\<close>

theorem verifyListenerRegistered_priority_witness:
  "outcome (retryWithBackoff ((\<lambda>a k. Inr sample_listener) sample_address) 3) = Inr sample_listener \<and>
   isValid (verifyListenerRegistered sample_lib sample_thresholds Map.empty
      (\<lambda>a k. Inr sample_listener) sample_address) \<and>
   reason (verifyListenerRegistered sample_lib sample_thresholds Map.empty
      (\<lambda>a k. Inr (sample_listener\<lparr>active := False, slashed := True, stake := 0, reputation := 0\<rparr>))
      sample_address)
     = Some ''Listener is not active'' \<and>
   reason (verifyListenerRegistered sample_lib sample_thresholds Map.empty
      (\<lambda>a k. Inr (sample_listener\<lparr>slashed := True, stake := 0, reputation := 0\<rparr>)) sample_address)
     = Some ''Listener has been slashed (banned)'' \<and>
   \<not> isValid (verifyListenerRegistered sample_lib sample_thresholds Map.empty
      (\<lambda>a k. Inr (sample_listener\<lparr>stake := 9999999999999999, reputation := 0\<rparr>)) sample_address) \<and>
   reason (verifyListenerRegistered sample_lib sample_thresholds Map.empty
      (\<lambda>a k. Inr (sample_listener\<lparr>stake := 9999999999999999, reputation := 0\<rparr>)) sample_address)
     = Some (''Listener stake too low: '' @ formatEther sample_lib 9999999999999999
               @ '' ETH (minimum: 0.01 ETH)'') \<and>
   reason (verifyListenerRegistered sample_lib sample_thresholds Map.empty
      (\<lambda>a k. Inr (sample_listener\<lparr>reputation := 29\<rparr>)) sample_address)
     = Some (''Listener reputation too low: '' @ show_int 29 @ '' (minimum: '' @ show_int 30 @ '')'')"
  using
    verifyListenerRegistered_priority [of "\<lambda>a k. Inr sample_listener" sample_address sample_listener
       sample_lib sample_thresholds Map.empty]
    verifyListenerRegistered_priority [of
       "\<lambda>a k. Inr (sample_listener\<lparr>active := False, slashed := True, stake := 0, reputation := 0\<rparr>)"
       sample_address "sample_listener\<lparr>active := False, slashed := True, stake := 0, reputation := 0\<rparr>"
       sample_lib sample_thresholds Map.empty]
    verifyListenerRegistered_priority [of
       "\<lambda>a k. Inr (sample_listener\<lparr>slashed := True, stake := 0, reputation := 0\<rparr>)"
       sample_address "sample_listener\<lparr>slashed := True, stake := 0, reputation := 0\<rparr>"
       sample_lib sample_thresholds Map.empty]
    verifyListenerRegistered_priority [of
       "\<lambda>a k. Inr (sample_listener\<lparr>stake := 9999999999999999, reputation := 0\<rparr>)"
       sample_address "sample_listener\<lparr>stake := 9999999999999999, reputation := 0\<rparr>"
       sample_lib sample_thresholds Map.empty]
    verifyListenerRegistered_priority [of
       "\<lambda>a k. Inr (sample_listener\<lparr>reputation := 29\<rparr>)"
       sample_address "sample_listener\<lparr>reputation := 29\<rparr>"
       sample_lib sample_thresholds Map.empty]
  by (simp add: retry3_cases)

text \<open>
  Claim C4. If the registry query fails (retries exhausted, or a failure that is not
  retried), the check returns \<open>isValid = False\<close> unless \<^verbatim>\<open>ALLOW_DURING_RPC_FAILURE\<close> is set to
  \<^verbatim>\<open>true\<close>, in which case it returns \<open>isValid = True\<close> with \<open>degraded = true\<close>; with the variable
  unset it fails closed; and no result is flagged degraded unless the variable is \<^verbatim>\<open>true\<close>.
\<close>

theorem verifyListenerRegistered_rpc_failure:
  "(\<forall>error. outcome (retryWithBackoff (getListener a) 3) = Inl error \<longrightarrow>
      (penv ''ALLOW_DURING_RPC_FAILURE'' \<noteq> Some ''true'' \<longrightarrow>
         \<not> isValid (verifyListenerRegistered lib th penv getListener a) \<and>
         info (verifyListenerRegistered lib th penv getListener a) = None) \<and>
      (penv ''ALLOW_DURING_RPC_FAILURE'' = Some ''true'' \<longrightarrow>
         isValid (verifyListenerRegistered lib th penv getListener a) \<and>
         map_option degraded (info (verifyListenerRegistered lib th penv getListener a))
           = Some (Some True)) \<and>
      \<not> isValid (verifyListenerRegistered lib th Map.empty getListener a)) \<and>
   (map_option degraded (info (verifyListenerRegistered lib th penv getListener a)) = Some (Some True)
      \<longrightarrow> penv ''ALLOW_DURING_RPC_FAILURE'' = Some ''true'')"
  by (simp add: verifyListenerRegistered_def registered_catch_def split: sum.splits)

text \<open>A query that times out at all three attempts, under the three settings of the toggle.\<close>

theorem verifyListenerRegistered_rpc_failure_witness:
  "outcome (retryWithBackoff ((\<lambda>a k. Inl sample_timeout :: thrown + listener_tuple) sample_address) 3)
     = Inl (Some sample_timeout) \<and>
   length (attempts_of (trace (retryWithBackoff
      ((\<lambda>a k. Inl sample_timeout :: thrown + listener_tuple) sample_address) 3))) = 3 \<and>
   \<not> isValid (verifyListenerRegistered sample_lib sample_thresholds Map.empty
        (\<lambda>a k. Inl sample_timeout) sample_address) \<and>
   \<not> isValid (verifyListenerRegistered sample_lib sample_thresholds
        [''ALLOW_DURING_RPC_FAILURE'' \<mapsto> ''false''] (\<lambda>a k. Inl sample_timeout) sample_address) \<and>
   isValid (verifyListenerRegistered sample_lib sample_thresholds degraded_on
        (\<lambda>a k. Inl sample_timeout) sample_address) \<and>
   map_option degraded (info (verifyListenerRegistered sample_lib sample_thresholds degraded_on
        (\<lambda>a k. Inl sample_timeout) sample_address)) = Some (Some True)"
  using
    verifyListenerRegistered_rpc_failure [of "\<lambda>a k. Inl sample_timeout" sample_address
       Map.empty sample_lib sample_thresholds]
    verifyListenerRegistered_rpc_failure [of "\<lambda>a k. Inl sample_timeout" sample_address
       "[''ALLOW_DURING_RPC_FAILURE'' \<mapsto> ''false'']" sample_lib sample_thresholds]
    verifyListenerRegistered_rpc_failure [of "\<lambda>a k. Inl sample_timeout" sample_address
       degraded_on sample_lib sample_thresholds]
  by (simp add: retry3_cases isTimeout_def)

section \<open>Properties of the payment verifier\<close>

text \<open>
  Claim C1 (as amended). With \<^verbatim>\<open>SKIP_PAYMENT_VERIFICATION\<close> different from \<^verbatim>\<open>true\<close>,
  \<^verbatim>\<open>verifyPaymentOnChain\<close> returns \<open>isValid = False\<close> with the reason that the PaymentDatabase
  is not available; with the toggle on it accepts exactly when the claimed amount parses as
  an ETH amount; in neither mode does the result depend on the ledger; and with the
  variable unset the bypass is off.
\<close>

theorem verifyPaymentOnChain_behaviour:
  "(penv ''SKIP_PAYMENT_VERIFICATION'' \<noteq> Some ''true'' \<longrightarrow>
      verifyPaymentOnChain this lib penv now paymentId merchant customer amount =
        \<lparr>isValid = False,
         reason = Some (''Payment verification enabled but PaymentDatabase not available. ''
                        @ ''Set SKIP_PAYMENT_VERIFICATION=true for testnet.''),
         info = None\<rparr>) \<and>
   (penv ''SKIP_PAYMENT_VERIFICATION'' = Some ''true'' \<longrightarrow>
      (isValid (verifyPaymentOnChain this lib penv now paymentId merchant customer amount)
         \<longleftrightarrow> (\<exists>wei. parseEther lib amount = Inr wei))) \<and>
   verifyPaymentOnChain this lib penv now paymentId merchant customer amount =
     verifyPaymentOnChain this' lib penv now paymentId merchant customer amount \<and>
   \<not> isValid (verifyPaymentOnChain this lib Map.empty now paymentId merchant customer amount)"
  by (simp add: verifyPaymentOnChain_def split: sum.splits)

text \<open>The three settings of the toggle, on a ledger that holds the claimed payment.\<close>

theorem verifyPaymentOnChain_behaviour_witness:
  "\<not> isValid (verifyPaymentOnChain sample_ledger sample_lib Map.empty 1700000000000
        sample_payment_id ''0xMerchant'' ''0xCustomer'' ''1.5'') \<and>
   \<not> isValid (verifyPaymentOnChain sample_ledger sample_lib
        [''SKIP_PAYMENT_VERIFICATION'' \<mapsto> ''false''] 1700000000000
        sample_payment_id ''0xMerchant'' ''0xCustomer'' ''1.5'') \<and>
   isValid (verifyPaymentOnChain sample_ledger sample_lib skip_on 1700000000000
        sample_payment_id ''0xMerchant'' ''0xCustomer'' ''1.5'')"
  using
    verifyPaymentOnChain_behaviour [of Map.empty sample_ledger sample_lib 1700000000000
       sample_payment_id "''0xMerchant''" "''0xCustomer''" "''1.5''"]
    verifyPaymentOnChain_behaviour [of "[''SKIP_PAYMENT_VERIFICATION'' \<mapsto> ''false'']"
       sample_ledger sample_lib 1700000000000
       sample_payment_id "''0xMerchant''" "''0xCustomer''" "''1.5''"]
    verifyPaymentOnChain_behaviour [of skip_on sample_ledger sample_lib 1700000000000
       sample_payment_id "''0xMerchant''" "''0xCustomer''" "''1.5''"]
  by simp

text \<open>
  The claim that, with the toggle off, the result is \<open>isValid = True\<close> iff a matching record is
  found on the ledger fails: here the ledger returns a matching COMPLETED record for the
  claimed payment and the verifier still rejects. With the toggle on, a claim whose amount
  is not a decimal number is rejected as well.
\<close>

theorem verifyPaymentOnChain_counterexample:
  "getPayment sample_ledger sample_payment_id =
     Inr \<lparr>db_paymentId = sample_payment_id, db_merchant = ''0xMerchant'',
          db_customer = ''0xCustomer'', db_amount = 1500000000000000000,
          db_timestamp = 1700000000, db_paymentType = 0, db_status = 1,
          db_orderId = ''order-1'', db_nonce = 1\<rparr> \<and>
   matching_record
     \<lparr>db_paymentId = sample_payment_id, db_merchant = ''0xMerchant'',
      db_customer = ''0xCustomer'', db_amount = 1500000000000000000,
      db_timestamp = 1700000000, db_paymentType = 0, db_status = 1,
      db_orderId = ''order-1'', db_nonce = 1\<rparr> ''0xmerchant'' ''0xcustomer'' \<and>
   \<not> isValid (verifyPaymentOnChain sample_ledger sample_lib Map.empty 1700000000000
        sample_payment_id ''0xmerchant'' ''0xcustomer'' ''1.5'') \<and>
   \<not> isValid (verifyPaymentOnChain sample_ledger sample_lib skip_on 1700000000000
        sample_payment_id ''0xmerchant'' ''0xcustomer'' ''one and a half'')"
  by code_simp

section \<open>Properties of the proof generator\<close>

text \<open>
  Claim C7 (as amended). \<^verbatim>\<open>generateMerchantProof\<close> fails if the listener address is not
  well-formed. When the payment id is not empty, the listener address is well-formed and
  the timestamp is positive: it fails with the too-old error whenever \<open>now - timestamp\<close>
  exceeds the configured expiry window; with a non-negative window it fails with the
  in-the-future error whenever the timestamp is more than 60 seconds ahead of \<open>now\<close>; and for
  \<open>timestamp = now\<close> it succeeds, provided the packing of payment id and listener address
  succeeds.
\<close>

theorem generateMerchantProof_validation:
  "(\<not> isAddress lib (params_listener_address p) \<longrightarrow>
      (\<exists>e. generateMerchantProof lib th now p = Inl e)) \<and>
   (params_payment_id p \<noteq> [] \<and> params_listener_address p \<noteq> [] \<and>
    isAddress lib (params_listener_address p) \<and> 0 < params_timestamp p \<longrightarrow>
      (\<forall>expiry. proofExpirySeconds th = Some expiry \<and> now - params_timestamp p > expiry * 1000 \<longrightarrow>
         generateMerchantProof lib th now p =
           Inl (validation_error (''Timestamp too old: ''
                  @ show_int ((now - params_timestamp p) div 1000) @ ''s (max: ''
                  @ show_int expiry @ ''s)''))) \<and>
      (\<forall>expiry. proofExpirySeconds th = Some expiry \<and> 0 \<le> expiry \<and>
           params_timestamp p > now + 60000 \<longrightarrow>
         generateMerchantProof lib th now p =
           Inl (validation_error ''Timestamp is in the future'')) \<and>
      (\<forall>expiry message. proofExpirySeconds th = Some expiry \<and> 0 \<le> expiry \<and>
           params_timestamp p = now \<and>
           solidityPackedKeccak256 lib (params_payment_id p) (params_listener_address p)
             = Inr message \<longrightarrow>
         generateMerchantProof lib th now p =
           Inr \<lparr>mp_message = message, mp_signature = signMessage lib message,
                mp_timestamp = now, mp_method = ''simple''\<rparr>))"
  by (auto simp add: generateMerchantProof_def validateProofParams_def num_gt_def num_times_def
        show_num_def Let_def split: sum.splits)

text \<open>
  With an expiry of 3600 s: a malformed address, \<open>timestamp = now - (expiry + 1) s\<close>,
  a timestamp 60.001 s ahead, and \<open>timestamp = now\<close>.
\<close>

theorem generateMerchantProof_validation_witness:
  "(\<exists>e. generateMerchantProof sample_lib sample_thresholds 1700000000000
      \<lparr>params_payment_id = sample_payment_id, params_listener_address = ''0xa1'',
       params_timestamp = 1700000000000, params_webhook_received = True,
       params_order_id = None, params_amount = Some ''1.5''\<rparr> = Inl e) \<and>
   generateMerchantProof sample_lib sample_thresholds 1700000000000
      \<lparr>params_payment_id = sample_payment_id, params_listener_address = sample_address,
       params_timestamp = 1700000000000 - (3600 + 1) * 1000, params_webhook_received = True,
       params_order_id = None, params_amount = Some ''1.5''\<rparr>
     = Inl (validation_error (''Timestamp too old: '' @ show_int 3601 @ ''s (max: ''
              @ show_int 3600 @ ''s)'')) \<and>
   generateMerchantProof sample_lib sample_thresholds 1700000000000
      \<lparr>params_payment_id = sample_payment_id, params_listener_address = sample_address,
       params_timestamp = 1700000000000 + 60001, params_webhook_received = True,
       params_order_id = None, params_amount = Some ''1.5''\<rparr>
     = Inl (validation_error ''Timestamp is in the future'') \<and>
   generateMerchantProof sample_lib sample_thresholds 1700000000000
      \<lparr>params_payment_id = sample_payment_id, params_listener_address = sample_address,
       params_timestamp = 1700000000000, params_webhook_received = True,
       params_order_id = None, params_amount = Some ''1.5''\<rparr>
     = Inr \<lparr>mp_message = ''0xhash:'' @ sample_payment_id @ sample_address,
            mp_signature = ''0xmerchant:'' @ ''0xhash:'' @ sample_payment_id @ sample_address,
            mp_timestamp = 1700000000000, mp_method = ''simple''\<rparr>"
  using
    generateMerchantProof_validation [of sample_lib
      "\<lparr>params_payment_id = sample_payment_id, params_listener_address = ''0xa1'',
       params_timestamp = 1700000000000, params_webhook_received = True,
       params_order_id = None, params_amount = Some ''1.5''\<rparr>" sample_thresholds 1700000000000]
    generateMerchantProof_validation [of sample_lib
      "\<lparr>params_payment_id = sample_payment_id, params_listener_address = sample_address,
       params_timestamp = 1700000000000 - (3600 + 1) * 1000, params_webhook_received = True,
       params_order_id = None, params_amount = Some ''1.5''\<rparr>" sample_thresholds 1700000000000]
    generateMerchantProof_validation [of sample_lib
      "\<lparr>params_payment_id = sample_payment_id, params_listener_address = sample_address,
       params_timestamp = 1700000000000 + 60001, params_webhook_received = True,
       params_order_id = None, params_amount = Some ''1.5''\<rparr>" sample_thresholds 1700000000000]
    generateMerchantProof_validation [of sample_lib
      "\<lparr>params_payment_id = sample_payment_id, params_listener_address = sample_address,
       params_timestamp = 1700000000000, params_webhook_received = True,
       params_order_id = None, params_amount = Some ''1.5''\<rparr>" sample_thresholds 1700000000000]
  by simp

text \<open>
  Without the side conditions the claim fails: a stale timestamp of 0 is answered with
  the valid-timestamp error, a stale timestamp next to a malformed address with the address
  error, and \<open>timestamp = now\<close> next to an empty payment id does not succeed.
\<close>

theorem generateMerchantProof_counterexample:
  "1700000000000 - 0 > (3600::int) * 1000 \<and>
   generateMerchantProof sample_lib sample_thresholds 1700000000000
      \<lparr>params_payment_id = sample_payment_id, params_listener_address = sample_address,
       params_timestamp = 0, params_webhook_received = True,
       params_order_id = None, params_amount = Some ''1.5''\<rparr>
     = Inl (validation_error ''Valid timestamp is required'') \<and>
   generateMerchantProof sample_lib sample_thresholds 1700000000000
      \<lparr>params_payment_id = sample_payment_id, params_listener_address = ''0xa1'',
       params_timestamp = 1700000000000 - (3600 + 1) * 1000, params_webhook_received = True,
       params_order_id = None, params_amount = Some ''1.5''\<rparr>
     = Inl (validation_error ''Valid listener_address is required'') \<and>
   generateMerchantProof sample_lib sample_thresholds 1700000000000
      \<lparr>params_payment_id = [], params_listener_address = sample_address,
       params_timestamp = 1700000000000, params_webhook_received = True,
       params_order_id = None, params_amount = Some ''1.5''\<rparr>
     = Inl (validation_error ''payment_id is required'')"
  by (simp add: generateMerchantProof_def validateProofParams_def)

section \<open>Properties of the confirmation monitor\<close>



lemma monitor_inv_effects [simp]:
  "monitor_inv (w\<lparr>effects := es\<rparr>) = monitor_inv w"
  by (simp add: monitor_inv_def)

lemma monitor_inv_tracker [simp]: "monitor_inv (w\<lparr>processedWebhooks := m\<rparr>) = monitor_inv w"
  by (simp add: monitor_inv_def)

lemma monitor_inv_add_effects [simp]: "monitor_inv (add_effects es w) = monitor_inv w"
  by (simp add: add_effects_def)







subsection \<open>Steps of a callback\<close>

lemma callback_step_world:
  "(\<exists>es. snd (callback_step R po tk w) = w\<lparr>effects := effects w @ es\<rparr>) \<or>
   (\<exists>es. snd (callback_step R po tk w)
      = stopConfirmationMonitoring (job_orderId (task_job tk)) (w\<lparr>effects := effects w @ es\<rparr>))"
proof (cases "task_stage tk")
  case AwaitConfirmations
  have "snd (callback_step R po tk w) = w\<lparr>effects := effects w @ []\<rparr>"
    using AwaitConfirmations by (simp add: callback_step_def Let_def split: sum.splits)
  then show ?thesis by blast
next
  case (AwaitWriteConfirmations confs)
  show ?thesis
  proof (cases "poll_write_confirmations po")
    case (Inl e)
    have "snd (callback_step R po tk w) = w\<lparr>effects := effects w @ []\<rparr>"
      using AwaitWriteConfirmations Inl by (simp add: callback_step_def)
    then show ?thesis by blast
  next
    case (Inr u)
    then show ?thesis
      using AwaitWriteConfirmations by (auto simp: callback_step_def Let_def)
  qed
next
  case (AwaitWriteConfirmed confs ts)
  show ?thesis
  proof (cases "poll_write_confirmed po")
    case (Inl e)
    have "snd (callback_step R po tk w) = w\<lparr>effects := effects w @ []\<rparr>"
      using AwaitWriteConfirmed Inl by (simp add: callback_step_def)
    then show ?thesis by blast
  next
    case (Inr order)
    then show ?thesis
      using AwaitWriteConfirmed by (auto simp: callback_step_def Let_def)
  qed
next
  case (AwaitMail confs order)
  then show ?thesis by (auto simp: callback_step_def Let_def)
qed

lemma stop_running [simp]: "running (stopConfirmationMonitoring k w) = running w"
  by (simp add: stopConfirmationMonitoring_def split: option.splits)

lemma stop_next_task [simp]: "next_task (stopConfirmationMonitoring k w) = next_task w"
  by (simp add: stopConfirmationMonitoring_def split: option.splits)

lemma stop_next_timer [simp]: "next_timer (stopConfirmationMonitoring k w) = next_timer w"
  by (simp add: stopConfirmationMonitoring_def split: option.splits)

lemma stop_effects [simp]: "effects (stopConfirmationMonitoring k w) = effects w"
  by (simp add: stopConfirmationMonitoring_def split: option.splits)

lemma stop_tracker [simp]:
  "processedWebhooks (stopConfirmationMonitoring k w) = processedWebhooks w"
  by (simp add: stopConfirmationMonitoring_def split: option.splits)

lemma start_running [simp]: "running (startConfirmationMonitoring k tx ch io w) = running w"
  by (simp add: startConfirmationMonitoring_def Let_def)

lemma start_next_task [simp]: "next_task (startConfirmationMonitoring k tx ch io w) = next_task w"
  by (simp add: startConfirmationMonitoring_def Let_def)

lemma start_effects [simp]: "effects (startConfirmationMonitoring k tx ch io w) = effects w"
  by (simp add: startConfirmationMonitoring_def Let_def)

lemma start_cleared [simp]: "cleared (startConfirmationMonitoring k tx ch io w) = cleared w"
  by (simp add: startConfirmationMonitoring_def Let_def)

lemma callback_step_running [simp]: "running (snd (callback_step R po tk w)) = running w"
  using callback_step_world [of R po tk w] by auto

lemma callback_step_next_task [simp]: "next_task (snd (callback_step R po tk w)) = next_task w"
  using callback_step_world [of R po tk w] by auto

lemma callback_step_next_timer [simp]: "next_timer (snd (callback_step R po tk w)) = next_timer w"
  using callback_step_world [of R po tk w] by auto






lemma resume_next_timer [simp]: "next_timer (resume R po i w) = next_timer w"
  by (simp add: resume_def split_beta split: option.splits)

lemma resume_next_task [simp]: "next_task (resume R po i w) = next_task w"
  by (simp add: resume_def split_beta split: option.splits)







subsection \<open>What a step leaves alone\<close>





lemma tick_timers [simp]: "timers (tick t w) = timers w"
  by (simp add: tick_def split: option.splits)

lemma tick_monitoringJobs [simp]: "monitoringJobs (tick t w) = monitoringJobs w"
  by (simp add: tick_def split: option.splits)

lemma tick_cleared [simp]: "cleared (tick t w) = cleared w"
  by (simp add: tick_def split: option.splits)

lemma tick_effects [simp]: "effects (tick t w) = effects w"
  by (simp add: tick_def split: option.splits)

lemma tick_next_timer [simp]: "next_timer (tick t w) = next_timer w"
  by (simp add: tick_def split: option.splits)






subsection \<open>The four steps of a callback that finds the threshold reached\<close>







subsection \<open>What only grows, and what a key without a start keeps\<close>






































text \<open>
  Two callbacks of the same interval that overlap and both find the threshold reached: the
  job is removed and its handle cleared once, and the order store is written to twice.
\<close>

lemma overlapping_callbacks:
  "monitoringJobs sample_overlapping ''order-1'' = None \<and>
   cleared sample_overlapping = [0] \<and>
   times_confirmed ''order-1'' sample_overlapping = 2"
  by code_simp


section \<open>Properties of the webhook orchestrator\<close>

lemma proofs_signed_append [simp]:
  "proofs_signed (xs @ ys) = proofs_signed xs @ proofs_signed ys"
  by (induction xs rule: proofs_signed.induct) simp_all

lemma tracker_add_effects [simp]:
  "processedWebhooks (add_effects es w) = processedWebhooks w"
  by (simp add: add_effects_def)

lemma effects_add_effects [simp]:
  "effects (add_effects es w) = effects w @ es"
  by (simp add: add_effects_def)

lemma tracker_start [simp]:
  "processedWebhooks (startConfirmationMonitoring k tx ch io w) = processedWebhooks w"
  by (simp add: startConfirmationMonitoring_def Let_def)

lemma effects_start [simp]:
  "effects (startConfirmationMonitoring k tx ch io w) = effects w"
  by (simp add: startConfirmationMonitoring_def Let_def)

lemma process_order_frame:
  "processedWebhooks (snd (process_order lib orc data txv w)) = processedWebhooks w \<and>
   proofs_signed (effects (snd (process_order lib orc data txv w))) = proofs_signed (effects w)"
  by (simp add: process_order_def Let_def split: sum.splits option.splits)

lemma log_webhook_frame:
  "processedWebhooks (log_webhook orc data s w) = processedWebhooks w \<and>
   proofs_signed (effects (log_webhook orc data s w)) = proofs_signed (effects w)"
  by (simp add: log_webhook_def split: sum.splits)

lemma emit_checkout_frame:
  "processedWebhooks (emit_checkout orc data txv mp w) = processedWebhooks w \<and>
   proofs_signed (effects (emit_checkout orc data txv mp w)) = proofs_signed (effects w)"
  by (simp add: emit_checkout_def)

lemma mark_processed_effects [simp]:
  "effects (mark_processed orc data a mp w) = effects w"
  by (simp add: mark_processed_def)

lemma issue_proof_no_address:
  "issue_proof lib th orc data [] order w = (None, w)"
  by (simp add: issue_proof_def)

lemma mark_processed_no_address:
  "mark_processed orc data [] mp w = w"
  by (simp add: mark_processed_def)


lemma process_verified_no_address:
  assumes "header_text (x_node_address req) = []"
  shows "res_status (json (fst (process_verified lib th orc req data w))) = Some ''success'' \<and>
         http_status (fst (process_verified lib th orc req data w)) = 200 \<and>
         res_proof (json (fst (process_verified lib th orc req data w))) = None \<and>
         res_signature (json (fst (process_verified lib th orc req data w))) = None \<and>
         processedWebhooks (snd (process_verified lib th orc req data w)) = processedWebhooks w \<and>
         proofs_signed (effects (snd (process_verified lib th orc req data w)))
           = proofs_signed (effects w)"
  using assms
  by (simp add: process_verified_def Let_def split_beta issue_proof_no_address
        mark_processed_no_address emit_checkout_frame log_webhook_frame process_order_frame
        success_response_def empty_body_def)

lemma payment_valid_indep:
  "isValid (verifyPaymentOnChain this lib penv now p m c a) =
   isValid (verifyPaymentOnChain this' lib penv now' p m c a)"
  by (simp add: verifyPaymentOnChain_def split: sum.splits)

lemma handleWebhook_checks_passed:
  assumes "parsed_body req = Parsed data"
    and "\<not> isWebhookProcessed (processedWebhooks w) (claim_payment_id data)"
    and "header_text (x_webhook_signature req) = [] \<or> header_text (x_node_address req) = [] \<or>
         verifyListenerSignature lib data (header_text (x_webhook_signature req))
           (header_text (x_node_address req))"
    and "header_text (x_node_address req) = [] \<or>
         isValid (verifyListenerRegistered lib th penv (registry_getListener orc)
                    (header_text (x_node_address req)))"
    and "isValid (verifyPaymentOnChain (chain orc) lib penv (t_verify orc) (claim_payment_id data)
                    (claim_merchant data) (claim_customer data) (claim_amount data))"
  shows "handleWebhook lib th penv orc req w = process_verified lib th orc req data w"
  using assms by (auto simp add: handleWebhook_def Let_def)

text \<open>
  Claim C6. For every webhook claim whose payment id is marked in the duplicate tracker,
  the handler answers 200 with status \<^verbatim>\<open>already_processed\<close>, the listener and time of
  the entry that the tracker holds, and no proof; the state of the process is returned as
  it was: no entry, job or effect is added, and no proof signature is issued.
\<close>

theorem handleWebhook_duplicate:
  assumes "parsed_body req = Parsed data"
    and "isWebhookProcessed (processedWebhooks w) (claim_payment_id data)"
  shows
  "\<exists>entry. getProcessingListener (processedWebhooks w) (claim_payment_id data) = Some entry \<and>
     handleWebhook lib th penv orc req w =
       (\<lparr>http_status = 200,
         json = empty_body\<lparr>res_status := Some ''already_processed'',
                           res_message := Some ''This payment was already handled'',
                           res_processed_by := Some (listener entry),
                           res_processed_at := Some (entry_timestamp entry),
                           res_proof := None\<rparr>\<rparr>, w) \<and>
     res_proof (json (fst (handleWebhook lib th penv orc req w))) = None \<and>
     proofs_signed (effects (snd (handleWebhook lib th penv orc req w)))
       = proofs_signed (effects w)"
  using assms
  by (auto simp add: handleWebhook_def isWebhookProcessed_def getProcessingListener_def Let_def
        empty_body_def)

text \<open>
  Claim C9. A claim that is not yet marked, carries no \<^verbatim>\<open>x-node-address\<close> header and
  passes the payment verification is answered 200 with status \<^verbatim>\<open>success\<close> and no proof;
  the duplicate tracker is left as it was and no proof signature is issued; and the same
  request submitted again, whatever the collaborators then answer, is processed anew with
  status \<^verbatim>\<open>success\<close> rather than reported as already processed.
\<close>

theorem handleWebhook_no_listener_address:
  assumes "parsed_body req = Parsed data"
    and "\<not> isWebhookProcessed (processedWebhooks w) (claim_payment_id data)"
    and "header_text (x_node_address req) = []"
    and "isValid (verifyPaymentOnChain (chain orc) lib penv (t_verify orc) (claim_payment_id data)
                    (claim_merchant data) (claim_customer data) (claim_amount data))"
  shows
  "http_status (fst (handleWebhook lib th penv orc req w)) = 200 \<and>
   res_status (json (fst (handleWebhook lib th penv orc req w))) = Some ''success'' \<and>
   res_proof (json (fst (handleWebhook lib th penv orc req w))) = None \<and>
   processedWebhooks (snd (handleWebhook lib th penv orc req w)) = processedWebhooks w \<and>
   proofs_signed (effects (snd (handleWebhook lib th penv orc req w)))
     = proofs_signed (effects w) \<and>
   \<not> isWebhookProcessed (processedWebhooks (snd (handleWebhook lib th penv orc req w)))
       (claim_payment_id data) \<and>
   res_status (json (fst (handleWebhook lib th penv orc' req
                            (snd (handleWebhook lib th penv orc req w))))) = Some ''success''"
proof -
  have first: "handleWebhook lib th penv orc req w = process_verified lib th orc req data w"
    using assms by (intro handleWebhook_checks_passed) simp_all
  note pv = process_verified_no_address [OF assms(3), of lib th orc data w]
  have kept: "processedWebhooks (snd (handleWebhook lib th penv orc req w)) = processedWebhooks w"
    using pv by (simp add: first)
  have valid': "isValid (verifyPaymentOnChain (chain orc') lib penv (t_verify orc')
                    (claim_payment_id data) (claim_merchant data) (claim_customer data)
                    (claim_amount data))"
    using assms(4) payment_valid_indep by blast
  have second: "handleWebhook lib th penv orc' req (snd (handleWebhook lib th penv orc req w)) =
      process_verified lib th orc' req data (snd (handleWebhook lib th penv orc req w))"
    using assms kept valid' by (intro handleWebhook_checks_passed) simp_all
  note pv' = process_verified_no_address [OF assms(3), of lib th orc' data
      "snd (handleWebhook lib th penv orc req w)"]
  show ?thesis
    using pv pv' kept assms(2) by (simp add: first [symmetric] second)
qed



lemma issue_proof_tracker [simp]:
  "processedWebhooks (snd (issue_proof lib th orc data a order w)) = processedWebhooks w"
  by (simp add: issue_proof_def split: sum.splits)






text \<open>A replay of a payment id that another listener has already been credited with.\<close>

theorem handleWebhook_duplicate_witness:
  "isWebhookProcessed (processedWebhooks sample_marked) (claim_payment_id sample_claim) \<and>
   handleWebhook sample_lib sample_thresholds skip_on sample_collaborators
       (sample_request (Some sample_address) sample_claim) sample_marked =
     (\<lparr>http_status = 200,
       json = empty_body\<lparr>res_status := Some ''already_processed'',
                         res_message := Some ''This payment was already handled'',
                         res_processed_by := Some ''0x00000000000000000000000000000000000000b2'',
                         res_processed_at := Some 1699999990000,
                         res_proof := None\<rparr>\<rparr>, sample_marked)"
proof -
  have p: "parsed_body (sample_request (Some sample_address) sample_claim) = Parsed sample_claim"
    by simp
  have m: "isWebhookProcessed (processedWebhooks sample_marked) (claim_payment_id sample_claim)"
    by (simp add: isWebhookProcessed_def)
  from handleWebhook_duplicate [OF p m, of sample_lib sample_thresholds skip_on sample_collaborators]
  show ?thesis
    using m by (auto simp add: getProcessingListener_def)
qed

text \<open>A verified claim without \<^verbatim>\<open>x-node-address\<close>, with the payment bypass switched on.\<close>

theorem handleWebhook_no_listener_address_witness:
  "\<not> isWebhookProcessed (processedWebhooks initial_world) (claim_payment_id sample_claim) \<and>
   isValid (verifyPaymentOnChain (chain sample_collaborators) sample_lib skip_on
              (t_verify sample_collaborators) (claim_payment_id sample_claim)
              (claim_merchant sample_claim) (claim_customer sample_claim)
              (claim_amount sample_claim)) \<and>
   res_status (json (fst (handleWebhook sample_lib sample_thresholds skip_on sample_collaborators
       (sample_request None sample_claim) initial_world))) = Some ''success'' \<and>
   res_proof (json (fst (handleWebhook sample_lib sample_thresholds skip_on sample_collaborators
       (sample_request None sample_claim) initial_world))) = None \<and>
   processedWebhooks (snd (handleWebhook sample_lib sample_thresholds skip_on sample_collaborators
       (sample_request None sample_claim) initial_world)) = Map.empty \<and>
   res_status (json (fst (handleWebhook sample_lib sample_thresholds skip_on sample_collaborators
       (sample_request None sample_claim)
       (snd (handleWebhook sample_lib sample_thresholds skip_on sample_collaborators
          (sample_request None sample_claim) initial_world))))) = Some ''success''"
proof -
  have p: "parsed_body (sample_request None sample_claim) = Parsed sample_claim"
    by simp
  have n: "\<not> isWebhookProcessed (processedWebhooks initial_world) (claim_payment_id sample_claim)"
    by (simp add: isWebhookProcessed_def initial_world_def)
  have a: "header_text (x_node_address (sample_request None sample_claim)) = []"
    by (simp add: header_text_def)
  have v: "isValid (verifyPaymentOnChain (chain sample_collaborators) sample_lib skip_on
              (t_verify sample_collaborators) (claim_payment_id sample_claim)
              (claim_merchant sample_claim) (claim_customer sample_claim)
              (claim_amount sample_claim))"
    by (simp add: verifyPaymentOnChain_def)
  from handleWebhook_no_listener_address [OF p n a v, of sample_thresholds sample_collaborators]
  show ?thesis
    using n v by (simp add: initial_world_def)
qed


text \<open>
  Claim C8, evaluated. The schema parser throws an error that is not a \<^verbatim>\<open>ZodError\<close>; the
  handler rethrows it into its outer \<^verbatim>\<open>catch\<close>, and the 500 body carries the message of the
  exception (not its stack).
\<close>

theorem handleWebhook_internal_error_body:
  "handleWebhook sample_lib sample_thresholds Map.empty sample_collaborators
     \<lparr>x_webhook_signature = None, x_node_address = Some sample_address, x_payment_id = None,
      parsed_body = ParseThrew
        \<lparr>instanceofError = True, err_code = Some ''ECONNREFUSED'',
         err_message = Some ''connect ECONNREFUSED 10.0.0.5:5432'',
         err_stack = Some ''Error: connect ECONNREFUSED 10.0.0.5:5432 at TCPConnectWrap''\<rparr>\<rparr>
     initial_world =
   (\<lparr>http_status = 500,
     json = empty_body\<lparr>res_error := Some ''Internal server error'',
                       res_message := Some ''connect ECONNREFUSED 10.0.0.5:5432''\<rparr>\<rparr>,
    initial_world)"
  by (simp add: handleWebhook_def error_message_json_def header_text_def)


end
